theory Spec2Isabelle
  imports Main "HOL-Library.AList"
begin

section \<open>Text\<close>

text \<open>
  A Python \<open>str\<close> is a sequence of code points. Text is modelled as a HOL \<open>string\<close>, whose
  characters are read as the code points 0 to 255 (not as UTF-8 bytes), so \<open>length\<close> counts
  what Python's \<open>len\<close> counts. The character classes below are Python 3's for that range.
  Two upper-case forms lie outside the range, U+0178 for code point 255 and U+039C for code
  point 181; they are written as the lower-case letters themselves, which like them are word
  characters outside every ASCII class. Code points above 255 are outside the model.
\<close>

definition in_range :: "nat \<Rightarrow> nat \<Rightarrow> char \<Rightarrow> bool" where
  "in_range lo hi c = (lo \<le> of_char c \<and> (of_char c :: nat) \<le> hi)"

definition is_space :: "char \<Rightarrow> bool" where
  \<comment> \<open>\<open>str.isspace\<close>, the characters that \<open>str.strip()\<close> removes\<close>
  "is_space c = (in_range 9 13 c \<or> in_range 28 32 c \<or> in_range 133 133 c \<or> in_range 160 160 c)"

definition is_digit :: "char \<Rightarrow> bool" where
  \<comment> \<open>\<open>\d\<close> and \<open>[0-9]\<close>\<close>
  "is_digit c = in_range 48 57 c"

definition is_ascii_alpha :: "char \<Rightarrow> bool" where
  \<comment> \<open>\<open>[a-zA-Z]\<close>\<close>
  "is_ascii_alpha c = (in_range 65 90 c \<or> in_range 97 122 c)"

definition is_cased :: "char \<Rightarrow> bool" where
  "is_cased c = (is_ascii_alpha c \<or> in_range 170 170 c \<or> in_range 181 181 c \<or> in_range 186 186 c
     \<or> in_range 192 214 c \<or> in_range 216 246 c \<or> in_range 248 255 c)"

definition is_word :: "char \<Rightarrow> bool" where
  \<comment> \<open>\<open>\w\<close> of a \<open>str\<close> pattern: alphanumeric (\<open>str.isalnum\<close>) or the underscore\<close>
  "is_word c = (is_cased c \<or> is_digit c \<or> in_range 95 95 c \<or> in_range 178 179 c
     \<or> in_range 185 185 c \<or> in_range 188 190 c)"

definition has_upper :: "char \<Rightarrow> bool" where
  \<comment> \<open>lower-case letters whose upper-case form is 32 code points below\<close>
  "has_upper c = (in_range 97 122 c \<or> in_range 224 246 c \<or> in_range 248 254 c)"

definition lower_char :: "char \<Rightarrow> char" where
  "lower_char c =
     (if in_range 65 90 c \<or> in_range 192 214 c \<or> in_range 216 222 c
      then char_of (of_char c + (32::nat)) else c)"

definition upper_char :: "char \<Rightarrow> string" where
  \<comment> \<open>code point 223 is the sharp s, whose upper-case form is two letters\<close>
  "upper_char c =
     (if has_upper c then [char_of (of_char c - (32::nat))]
      else if in_range 223 223 c then ''SS'' else [c])"

definition title_char :: "char \<Rightarrow> string" where
  "title_char c =
     (if has_upper c then [char_of (of_char c - (32::nat))]
      else if in_range 223 223 c then ''Ss'' else [c])"

definition str_strip :: "string \<Rightarrow> string" where
  "str_strip s = rev (dropWhile is_space (rev (dropWhile is_space s)))"

definition str_lower :: "string \<Rightarrow> string" where
  "str_lower s = map lower_char s"

definition str_upper :: "string \<Rightarrow> string" where
  "str_upper s = concat (map upper_char s)"

fun title_from :: "bool \<Rightarrow> string \<Rightarrow> string" where
  "title_from previous_is_cased [] = []"
| "title_from previous_is_cased (c # cs) =
     (if previous_is_cased then [lower_char c] else title_char c) @ title_from (is_cased c) cs"

definition str_title :: "string \<Rightarrow> string" where
  "str_title s = title_from False s"

fun py_in :: "string \<Rightarrow> string \<Rightarrow> bool" where
  \<comment> \<open>\<open>w in s\<close> on strings: \<open>w\<close> occurs in \<open>s\<close> as a contiguous run\<close>
  "py_in w [] = (w = [])"
| "py_in w (c # cs) = (take (length w) (c # cs) = w \<or> py_in w cs)"

definition any_in :: "string list \<Rightarrow> string \<Rightarrow> bool" where
  \<comment> \<open>\<open>any(word in s for word in words)\<close>\<close>
  "any_in words s = list_ex (\<lambda>word. py_in word s) words"

definition nat_of_digits :: "string \<Rightarrow> nat" where
  "nat_of_digits ds = foldl (\<lambda>n c. 10 * n + (of_char c - 48)) 0 ds"

fun no_double_underscore :: "string \<Rightarrow> bool" where
  "no_double_underscore (a # b # cs) =
     (\<not> (a = CHR ''_'' \<and> b = CHR ''_'') \<and> no_double_underscore (b # cs))"
| "no_double_underscore cs = True"

definition int_literal :: "string \<Rightarrow> bool" where
  \<comment> \<open>digits, with single underscores allowed between them\<close>
  "int_literal b = (b \<noteq> [] \<and> is_digit (hd b) \<and> is_digit (last b)
     \<and> list_all (\<lambda>c. is_digit c \<or> c = CHR ''_'') b \<and> no_double_underscore b)"

definition is_int_space :: "char \<Rightarrow> bool" where
  \<comment> \<open>the whitespace that \<open>int()\<close> skips around a number: the six ASCII characters that C
      takes as whitespace and the whitespace beyond ASCII; not the separators 28 to 31, which
      \<open>str.isspace\<close> and \<open>str.strip()\<close> take as whitespace\<close>
  "is_int_space c = (in_range 9 13 c \<or> in_range 32 32 c \<or> in_range 133 133 c
     \<or> in_range 160 160 c)"

definition max_str_digits :: nat where
  \<comment> \<open>the default of \<open>sys.int_max_str_digits\<close>: \<open>int()\<close> raises on more digits\<close>
  "max_str_digits = 4300"

definition py_int :: "string \<Rightarrow> int option" where
  \<comment> \<open>\<open>int(s)\<close> for a string; \<open>None\<close> is \<open>ValueError\<close>\<close>
  "py_int s =
     (let t = rev (dropWhile is_int_space (rev (dropWhile is_int_space s)));
          neg = (t \<noteq> [] \<and> hd t = CHR ''-'');
          b = (if t \<noteq> [] \<and> (hd t = CHR ''-'' \<or> hd t = CHR ''+'') then tl t else t)
      in if int_literal b \<and> length (filter is_digit b) \<le> max_str_digits
         then Some ((if neg then - 1 else 1) * int (nat_of_digits (filter is_digit b)))
         else None)"

subsection \<open>The regular expressions of the validators\<close>

text \<open>
  Each pattern is searched as \<open>re.search\<close> does: leftmost start first, and at one start the
  match that greedy backtracking finds first. Every pattern between two \<open>\b\<close> begins and ends
  with a word character, so \<open>\b\<close> in front holds exactly when no word character precedes, and
  \<open>\b\<close> behind exactly when no word character follows.
\<close>

definition at_boundary :: "string \<Rightarrow> bool" where
  "at_boundary s = (case s of [] \<Rightarrow> True | c # _ \<Rightarrow> \<not> is_word c)"

fun search_b :: "(string \<Rightarrow> string option) \<Rightarrow> bool \<Rightarrow> string \<Rightarrow> string option" where
  \<comment> \<open>\<open>prev\<close>: the character before is a word character\<close>
  "search_b m prev [] = None"
| "search_b m prev (c # cs) =
     (case (if prev then None else m (c # cs)) of
        Some g \<Rightarrow> Some g
      | None \<Rightarrow> search_b m (is_word c) cs)"

definition match_run :: "nat \<Rightarrow> (char \<Rightarrow> bool) \<Rightarrow> string \<Rightarrow> string option" where
  \<comment> \<open>\<open>(class{n})\b\<close> at the head of \<open>s\<close>\<close>
  "match_run n p s =
     (if n \<le> length s \<and> list_all p (take n s) \<and> at_boundary (drop n s)
      then Some (take n s) else None)"

definition search_zip :: "string \<Rightarrow> string option" where
  \<comment> \<open>\<open>\b(\d{5})\b\<close>\<close>
  "search_zip s = search_b (match_run 5 is_digit) False s"

definition is_vin_char :: "char \<Rightarrow> bool" where
  \<comment> \<open>\<open>[A-HJ-NPR-Z0-9]\<close>\<close>
  "is_vin_char c = (in_range 65 72 c \<or> in_range 74 78 c \<or> in_range 80 80 c
     \<or> in_range 82 90 c \<or> is_digit c)"

definition search_vin :: "string \<Rightarrow> string option" where
  \<comment> \<open>\<open>\b([A-HJ-NPR-Z0-9]{17})\b\<close>\<close>
  "search_vin s = search_b (match_run 17 is_vin_char) False s"

definition match_year :: "string \<Rightarrow> string option" where
  "match_year s =
     (if 4 \<le> length s \<and> (take 2 s = ''19'' \<or> take 2 s = ''20'')
         \<and> list_all is_digit (take 2 (drop 2 s)) \<and> at_boundary (drop 4 s)
      then Some (take 4 s) else None)"

definition search_year :: "string \<Rightarrow> string option" where
  \<comment> \<open>\<open>\b(19\d{2}|20\d{2})\b\<close>\<close>
  "search_year s = search_b match_year False s"

definition search_day :: "string \<Rightarrow> string option" where
  \<comment> \<open>\<open>\b([1-7])\b\<close>\<close>
  "search_day s = search_b (match_run 1 (in_range 49 55)) False s"

definition match_digits :: "string \<Rightarrow> string option" where
  \<comment> \<open>the longest run of digits; a shorter one is followed by a digit, where \<open>\b\<close> fails\<close>
  "match_digits s =
     (if takeWhile is_digit s \<noteq> [] \<and> at_boundary (dropWhile is_digit s)
      then Some (takeWhile is_digit s) else None)"

definition search_digits :: "string \<Rightarrow> string option" where
  \<comment> \<open>\<open>\b(\d+)\b\<close>\<close>
  "search_digits s = search_b match_digits False s"

definition is_local_char :: "char \<Rightarrow> bool" where
  \<comment> \<open>\<open>[a-zA-Z0-9._%+-]\<close>\<close>
  "is_local_char c = (is_ascii_alpha c \<or> is_digit c \<or> c \<in> set ''._%+-'')"

definition is_domain_char :: "char \<Rightarrow> bool" where
  \<comment> \<open>\<open>[a-zA-Z0-9.-]\<close>\<close>
  "is_domain_char c = (is_ascii_alpha c \<or> is_digit c \<or> c \<in> set ''.-'')"

definition tld_at :: "string \<Rightarrow> nat \<Rightarrow> string" where
  "tld_at d k = takeWhile is_ascii_alpha (drop (Suc k) d)"

definition match_email :: "string \<Rightarrow> string option" where
  \<comment> \<open>The local part is the whole run of local characters, as only that one can be followed
      by the at sign. The domain part is first tried as the whole run \<open>d\<close> of domain characters
      and then shortened: the match ends at the last dot of \<open>d\<close>, not its first character, that
      two letters follow, and takes all the letters after it.\<close>
  "match_email s =
     (let loc = takeWhile is_local_char s in
      if loc = [] then None
      else (case dropWhile is_local_char s of
              [] \<Rightarrow> None
            | c # r \<Rightarrow>
                if c \<noteq> CHR ''@'' then None
                else (let d = takeWhile is_domain_char r;
                          ks = filter (\<lambda>k. d ! k = CHR ''.'' \<and> 2 \<le> length (tld_at d k))
                                 [1 ..< length d]
                      in if ks = [] then None
                         else Some (loc @ ''@'' @ take (last ks) d @ ''.'' @ tld_at d (last ks)))))"

fun search_plain :: "(string \<Rightarrow> string option) \<Rightarrow> string \<Rightarrow> string option" where
  "search_plain m [] = None"
| "search_plain m (c # cs) =
     (case m (c # cs) of Some g \<Rightarrow> Some g | None \<Rightarrow> search_plain m cs)"

definition search_email :: "string \<Rightarrow> string option" where
  \<comment> \<open>\<open>[a-zA-Z0-9._%+-]+@[a-zA-Z0-9.-]+\.[a-zA-Z]{2,}\<close>\<close>
  "search_email s = search_plain match_email s"

section \<open>Values\<close>

text \<open>
  The values that the engine passes around untyped (\<open>Any\<close>): \<open>None\<close>, booleans, integers,
  strings and dictionaries with string keys. A dictionary is an association list read with
  \<open>map_of\<close> and written with \<open>AList.update\<close>, so a key has one entry.
\<close>

datatype pyval = PNone | PBool bool | PInt int | PStr string | PDict "(string \<times> pyval) list"

type_synonym pydict = "(string \<times> pyval) list"

datatype error = ValueError | TypeError | AttributeError

definition truthy :: "pyval \<Rightarrow> bool" where
  "truthy v = (case v of PNone \<Rightarrow> False | PBool b \<Rightarrow> b | PInt n \<Rightarrow> n \<noteq> 0
     | PStr s \<Rightarrow> s \<noteq> [] | PDict d \<Rightarrow> d \<noteq> [])"

definition dict_get :: "pydict \<Rightarrow> string \<Rightarrow> pyval" where
  \<comment> \<open>\<open>d.get(k)\<close>\<close>
  "dict_get d k = (case map_of d k of None \<Rightarrow> PNone | Some v \<Rightarrow> v)"

definition dict_get_default :: "pydict \<Rightarrow> string \<Rightarrow> pyval \<Rightarrow> pyval" where
  \<comment> \<open>\<open>d.get(k, default)\<close>\<close>
  "dict_get_default d k dflt = (case map_of d k of None \<Rightarrow> dflt | Some v \<Rightarrow> v)"

definition dict_set :: "pydict \<Rightarrow> string \<Rightarrow> pyval \<Rightarrow> pydict" where
  \<comment> \<open>\<open>d[k] = v\<close>\<close>
  "dict_set d k v = AList.update k v d"

definition has_key :: "string \<Rightarrow> pydict \<Rightarrow> bool" where
  \<comment> \<open>\<open>k in d\<close>\<close>
  "has_key k d = (map_of d k \<noteq> None)"

definition opt_val :: "string option \<Rightarrow> pyval" where
  "opt_val x = (case x of None \<Rightarrow> PNone | Some s \<Rightarrow> PStr s)"

definition int_of_val :: "pyval \<Rightarrow> error + int" where
  \<comment> \<open>\<open>int(v)\<close>\<close>
  "int_of_val v =
     (case v of
        PStr s \<Rightarrow> (case py_int s of None \<Rightarrow> Inl ValueError | Some n \<Rightarrow> Inr n)
      | PInt n \<Rightarrow> Inr n
      | PBool b \<Rightarrow> Inr (if b then 1 else 0)
      | PNone \<Rightarrow> Inl TypeError
      | PDict d \<Rightarrow> Inl TypeError)"

section \<open>The vehicle lookup service (services/nhtsa.py)\<close>

text \<open>
  The three requests of the service are the environment. A request times out, fails, or
  yields the \<open>Results\<close> list of the decoded JSON body (empty when the key is absent). A row of
  that list is a JSON object whose values are strings or \<open>null\<close>, as the lookup API sends
  them. \<open>Failed e\<close> is every other exception raised inside the \<open>try\<close> block, by the request,
  by \<open>raise_for_status\<close>, by the JSON decoder or by a body of another shape, with \<open>e\<close> its
  text \<open>str(e)\<close>: the handler \<open>except Exception\<close> treats them alike.
\<close>

type_synonym row = "(string \<times> string option) list"

datatype outcome = Timeout | Failed string | Payload "row list"

record nhtsa_api =
  decode_vin_values :: "string \<Rightarrow> outcome"
  makes_for_car :: outcome
  all_makes :: outcome

text \<open>
  \<open>decode_vin_values api vin\<close> is GET \<open>/DecodeVinValues/{vin}?format=json\<close>, \<open>makes_for_car\<close>
  is GET \<open>/GetMakesForVehicleType/car?format=json\<close> and \<open>all_makes\<close> is GET
  \<open>/GetAllMakes?format=json\<close>.
\<close>

definition row_get :: "row \<Rightarrow> string \<Rightarrow> string option" where
  \<comment> \<open>\<open>r.get(k)\<close>: \<open>None\<close> for an absent key and for \<open>null\<close>\<close>
  "row_get r k = (case map_of r k of None \<Rightarrow> None | Some x \<Rightarrow> x)"

definition row_get_default :: "row \<Rightarrow> string \<Rightarrow> string \<Rightarrow> string option" where
  \<comment> \<open>\<open>r.get(k, default)\<close>: the default for an absent key only\<close>
  "row_get_default r k dflt = (case map_of r k of None \<Rightarrow> Some dflt | Some x \<Rightarrow> x)"

definition blank :: "string option \<Rightarrow> bool" where
  \<comment> \<open>\<open>not x or x.strip() == ""\<close>\<close>
  "blank x = (case x of None \<Rightarrow> True | Some s \<Rightarrow> s = [] \<or> str_strip s = [])"

definition falsy :: "string option \<Rightarrow> bool" where
  \<comment> \<open>\<open>not x\<close>\<close>
  "falsy x = (case x of None \<Rightarrow> True | Some s \<Rightarrow> s = [])"

definition invalid :: "string \<Rightarrow> pydict" where
  "invalid msg = [(''valid'', PBool False), (''error'', PStr msg)]"

definition suspicious_makes :: "string list" where
  "suspicious_makes = [''SHERMAN + REILLY'', ''INCOMPLETE'', ''NOT APPLICABLE'']"

definition decode_vin :: "nhtsa_api \<Rightarrow> string \<Rightarrow> pydict" where
  "decode_vin api vin_text =
     (case decode_vin_values api vin_text of
        Timeout \<Rightarrow> invalid ''Vehicle verification service timed out. Please try again.''
      | Failed e \<Rightarrow> invalid (''Error verifying vehicle: '' @ e)
      | Payload results \<Rightarrow>
          (case results of
             [] \<Rightarrow> invalid ''Could not decode VIN. Please verify it's correct.''
           | result_data # _ \<Rightarrow>
               (let error_code_raw = row_get_default result_data ''ErrorCode'' ''0'';
                    error_code =
                      (if falsy error_code_raw then 0
                       else (case error_code_raw of
                               None \<Rightarrow> 0
                             | Some s \<Rightarrow> (case py_int (str_strip s) of None \<Rightarrow> 0 | Some n \<Rightarrow> n)));
                    make_f = row_get result_data ''Make'';
                    model_f = row_get result_data ''Model'';
                    year_f = row_get result_data ''ModelYear'';
                    body_class = row_get result_data ''BodyClass''
                in if 7 \<le> error_code
                   then invalid (''Invalid VIN: '' @
                          (case row_get_default result_data ''ErrorText'' ''Invalid VIN format'' of
                             None \<Rightarrow> ''None'' | Some error_text \<Rightarrow> error_text))
                   else (case make_f of
                           None \<Rightarrow> invalid ''Could not decode VIN. Please verify it's correct.''
                         | Some mk \<Rightarrow>
                             if blank make_f
                             then invalid ''Could not decode VIN. Please verify it's correct.''
                             else if (str_upper mk \<in> set suspicious_makes \<or> py_in ''+'' mk)
                                     \<and> blank year_f
                             then invalid
                               ''This VIN doesn't appear to be for a standard consumer vehicle.''
                             else [(''valid'', PBool True), (''make'', PStr mk),
                                   (''model'', opt_val model_f), (''year'', opt_val year_f),
                                   (''body_class'', opt_val body_class),
                                   (''error_code'', PInt error_code)]))))"

definition make_names :: "string \<Rightarrow> row list \<Rightarrow> string list option" where
  \<comment> \<open>\<open>[r.get(key, "").upper() for r in results]\<close>; \<open>None\<close> when a name is \<open>null\<close>, where
      \<open>.upper()\<close> raises\<close>
  "make_names key results =
     those (map (\<lambda>r. map_option str_upper (row_get_default r key [])) results)"

definition proceed_anyway :: pydict where
  "proceed_anyway = [(''valid'', PBool True),
     (''warning'', PStr ''Could not verify make, proceeding anyway.'')]"

definition listed :: "string \<Rightarrow> string \<Rightarrow> outcome \<Rightarrow> bool option" where
  \<comment> \<open>one request and the membership test on its names; \<open>None\<close> when either handler ran\<close>
  "listed key mk res =
     (case res of
        Timeout \<Rightarrow> None
      | Failed e \<Rightarrow> None
      | Payload results \<Rightarrow>
          (case make_names key results of
             None \<Rightarrow> None
           | Some makes \<Rightarrow> Some (str_upper mk \<in> set makes)))"

definition validate_year_make :: "nhtsa_api \<Rightarrow> pyval \<Rightarrow> string \<Rightarrow> pydict" where
  "validate_year_make api yr mk =
     (case listed ''MakeName'' mk (makes_for_car api) of
        None \<Rightarrow> proceed_anyway
      | Some True \<Rightarrow> [(''valid'', PBool True)]
      | Some False \<Rightarrow>
          (case listed ''Make_Name'' mk (all_makes api) of
             None \<Rightarrow> proceed_anyway
           | Some True \<Rightarrow> [(''valid'', PBool True)]
           | Some False \<Rightarrow>
               invalid ([CHR 0x27] @ mk @ [CHR 0x27] @
                 '' doesn't appear to be a valid vehicle make. Please check the spelling.'')))"

section \<open>The data model\<close>

text \<open>
  Modelled from the spec: \<open>models.py\<close>, which declares \<open>ConversationState\<close>, \<open>Vehicle\<close>,
  \<open>Conversation\<close> and \<open>Message\<close>, is not among the sources. The states are the members that
  the engine names, with the values that \<open>services/openai_service.py\<close> uses as keys. The
  fields are those that the engine reads and writes; they hold untyped values, \<open>PNone\<close> for
  an empty column (the field \<open>make\<close> is written \<open>make_name\<close>). A vehicle or message added to the session and committed is the last
  element of the conversation's \<open>vehicles\<close> or \<open>messages\<close>: the sequences are ordered and
  append-only.
\<close>

datatype ConversationState =
    ZIP_CODE | FULL_NAME | EMAIL | VEHICLE_CHOICE | VEHICLE_VIN | VEHICLE_YEAR | VEHICLE_MAKE
  | VEHICLE_BODY | VEHICLE_USE | BLIND_SPOT_WARNING | COMMUTE_DAYS | COMMUTE_MILES
  | ANNUAL_MILEAGE | ADD_ANOTHER_VEHICLE | LICENSE_TYPE | LICENSE_STATUS | COMPLETE

record vehicle =
  conversation_id :: nat
  vin :: pyval
  year :: pyval
  make_name :: pyval
  body_type :: pyval
  vehicle_use :: pyval
  blind_spot_warning :: pyval
  days_per_week :: pyval
  one_way_miles :: pyval
  annual_mileage :: pyval

record message =
  role :: string
  content :: string

record conversation =
  ident :: nat
  zip_code :: pyval
  full_name :: pyval
  email :: pyval
  license_type :: pyval
  license_status :: pyval
  current_state :: ConversationState
  vehicles :: "vehicle list"
  messages :: "message list"

definition Vehicle :: "nat \<Rightarrow> vehicle" where
  \<comment> \<open>\<open>Vehicle(conversation_id=...)\<close>\<close>
  "Vehicle cid = \<lparr>conversation_id = cid, vin = PNone, year = PNone, make_name = PNone,
     body_type = PNone, vehicle_use = PNone, blind_spot_warning = PNone, days_per_week = PNone,
     one_way_miles = PNone, annual_mileage = PNone\<rparr>"

definition add_message :: "string \<Rightarrow> string \<Rightarrow> conversation \<Rightarrow> conversation" where
  \<comment> \<open>\<open>db.add(Message(conversation_id=..., role=..., content=...)); db.commit()\<close>\<close>
  "add_message r text c = c\<lparr>messages := messages c @ [\<lparr>role = r, content = text\<rparr>]\<rparr>"

section \<open>The reply generator (services/openai_service.py)\<close>

text \<open>
  The language model is an oracle. The system prompt and the message list that
  \<open>generate_response\<close> sends are built from the state, the context, the additional context
  when it is not empty, the last ten entries of the history and the user message, so the
  oracle is given these. It answers \<open>None\<close> when anything inside the \<open>try\<close> block raises.
\<close>

record gen_request =
  req_state :: ConversationState
  req_user_message :: string
  req_history :: "(string \<times> string) list"
  req_context :: pydict
  req_additional_context :: "string option"

definition last10 :: "'a list \<Rightarrow> 'a list" where
  \<comment> \<open>\<open>xs[-10:]\<close>\<close>
  "last10 xs = drop (length xs - 10) xs"

definition fallback_responses :: "ConversationState \<Rightarrow> string" where
  "fallback_responses st =
     (case st of
        ZIP_CODE \<Rightarrow> ''Could you please provide your ZIP code?''
      | FULL_NAME \<Rightarrow> ''What is your full name?''
      | EMAIL \<Rightarrow> ''What is your email address?''
      | VEHICLE_CHOICE \<Rightarrow> ''Would you like to enter a VIN or provide Year, Make, and Body Type?''
      | VEHICLE_VIN \<Rightarrow> ''Please enter the 17-character VIN.''
      | VEHICLE_YEAR \<Rightarrow> ''What year is the vehicle?''
      | VEHICLE_MAKE \<Rightarrow> ''What is the make of the vehicle?''
      | VEHICLE_BODY \<Rightarrow> ''What is the body type?''
      | VEHICLE_USE \<Rightarrow> ''How do you use this vehicle? (Commuting, Commercial, Farming, Business)''
      | BLIND_SPOT_WARNING \<Rightarrow> ''Does this vehicle have blind spot warning? (Yes/No)''
      | COMMUTE_DAYS \<Rightarrow> ''How many days per week do you commute?''
      | COMMUTE_MILES \<Rightarrow> ''How many miles is your one-way commute?''
      | ANNUAL_MILEAGE \<Rightarrow>
          ''Thank you! Now, what is your estimated annual mileage for this vehicle?''
      | ADD_ANOTHER_VEHICLE \<Rightarrow> ''Would you like to add another vehicle?''
      | LICENSE_TYPE \<Rightarrow> ''What type of US license do you have? (Foreign, Personal, Commercial)''
      | LICENSE_STATUS \<Rightarrow> ''What is your license status? (Valid/Suspended)''
      | COMPLETE \<Rightarrow> ''Thank you! Your information has been collected successfully. You can now start a new session if needed.'')"

definition generate_response ::
  "(gen_request \<Rightarrow> string option) \<Rightarrow> ConversationState \<Rightarrow> string \<Rightarrow> (string \<times> string) list
     \<Rightarrow> pydict \<Rightarrow> string option \<Rightarrow> string" where
  "generate_response model st user_message conversation_history context additional_context =
     (case model \<lparr>req_state = st, req_user_message = user_message,
                   req_history = last10 conversation_history, req_context = context,
                   req_additional_context =
                     (case additional_context of
                        None \<Rightarrow> None
                      | Some a \<Rightarrow> if a = [] then None else Some a)\<rparr> of
        Some text \<Rightarrow> str_strip text
      | None \<Rightarrow> fallback_responses st)"

definition frustration_keywords :: "string list" where
  "frustration_keywords =
     [''frustrated'', ''angry'', ''annoyed'', ''speak to human'', ''talk to someone'',
      ''real person'', ''agent'', ''representative'', ''this is ridiculous'',
      ''hate this'', ''stupid'', ''useless'', ''waste of time'', ''give up'',
      ''help me'', ''not working'', ''doesn't work'', ''broken'']"

definition check_frustration :: "string \<Rightarrow> bool" where
  "check_frustration msg = any_in frustration_keywords (str_lower msg)"

section \<open>The conversation engine (conversation_engine.py)\<close>

text \<open>
  The collaborators of the engine: the lookup requests, the language model, and the quote
  that \<open>ZenQuotesService.get_quote\<close> returns (its module is not among the sources).
\<close>

record services =
  nhtsa :: nhtsa_api
  chat :: "gen_request \<Rightarrow> string option"
  get_quote :: string

definition get_context :: "conversation \<Rightarrow> pydict" where
  "get_context c =
     filter (\<lambda>kv. snd kv \<noteq> PNone)
       [(''zip_code'', zip_code c), (''full_name'', full_name c), (''email'', email c),
        (''license_type'', license_type c), (''license_status'', license_status c),
        (''vehicles_count'', PInt (int (length (vehicles c))))]"

definition get_current_vehicle :: "conversation \<Rightarrow> vehicle option" where
  "get_current_vehicle c = (if vehicles c \<noteq> [] then Some (last (vehicles c)) else None)"

definition error_text :: "pydict \<Rightarrow> string \<Rightarrow> string option" where
  \<comment> \<open>\<open>result.get('error', default)\<close> as the optional string that the validator returns\<close>
  "error_text result dflt =
     (case dict_get_default result ''error'' (PStr dflt) of PStr e \<Rightarrow> Some e | _ \<Rightarrow> None)"

definition valid_bodies :: "string list" where
  "valid_bodies = [''sedan'', ''suv'', ''truck'', ''coupe'', ''hatchback'', ''van'',
     ''wagon'', ''convertible'', ''minivan'', ''pickup'']"

definition positive_number ::
  "string option \<Rightarrow> string \<Rightarrow> error + bool \<times> pyval \<times> string option" where
  \<comment> \<open>the common tail of the two mileage validators; \<open>int\<close> raises on a run of more
      digits than \<open>max_str_digits\<close>\<close>
  "positive_number found msg =
     (case found of
        Some g \<Rightarrow>
          (case py_int g of
             None \<Rightarrow> Inl ValueError
           | Some n \<Rightarrow> if 0 < n then Inr (True, PInt n, None) else Inr (False, PNone, Some msg))
      | None \<Rightarrow> Inr (False, PNone, Some msg))"

definition affirmative_words :: "string list" where
  "affirmative_words = [''yes'', ''yeah'', ''yep'', ''have'', ''equipped'', ''does'']"

definition negative_words :: "string list" where
  "negative_words = [''no'', ''nope'', ''not'', ''don't'', ''doesn't'']"

definition blind_spot :: "string \<Rightarrow> bool \<times> pyval \<times> string option" where
  \<comment> \<open>the branch of the validator for \<open>BLIND_SPOT_WARNING\<close>, on the lower-cased input\<close>
  "blind_spot lower =
     (if any_in affirmative_words lower then (True, PBool True, None)
      else if any_in negative_words lower then (True, PBool False, None)
      else (False, PNone, Some ''Please answer Yes or No.''))"

definition blind_spot_negative_first :: "string \<Rightarrow> bool \<times> pyval \<times> string option" where
  \<comment> \<open>not in the source: the same two tests in the other order, for comparison\<close>
  "blind_spot_negative_first lower =
     (if any_in negative_words lower then (True, PBool False, None)
      else if any_in affirmative_words lower then (True, PBool True, None)
      else (False, PNone, Some ''Please answer Yes or No.''))"

definition validate_vin :: "services \<Rightarrow> string \<Rightarrow> (pydict \<Rightarrow> pyval) \<Rightarrow> bool \<times> pyval \<times> string option" where
  \<comment> \<open>what the states \<open>VEHICLE_CHOICE\<close> and \<open>VEHICLE_VIN\<close> do with a matched VIN; \<open>wrap\<close> builds
      the accepted value from the decode result that holds the VIN\<close>
  "validate_vin sv v wrap =
     (let result = decode_vin (nhtsa sv) v
      in if truthy (dict_get result ''valid'')
         then (True, wrap (dict_set result ''vin'' (PStr v)), None)
         else (False, PNone, error_text result ''Invalid VIN.''))"

definition validate_and_extract ::
  "services \<Rightarrow> ConversationState \<Rightarrow> string \<Rightarrow> conversation
     \<Rightarrow> error + bool \<times> pyval \<times> string option" where
  \<comment> \<open>\<open>Inl\<close>: the exception that the validator raises\<close>
  "validate_and_extract sv state raw conversation =
     (let user_input = str_strip raw; lower = str_lower user_input in
      case state of
        ZIP_CODE \<Rightarrow>
          (case search_zip user_input of
             Some g \<Rightarrow> Inr (True, PStr g, None)
           | None \<Rightarrow> Inr (False, PNone, Some ''Please provide a valid 5-digit ZIP code.''))
      | FULL_NAME \<Rightarrow>
          if 2 \<le> length user_input then Inr (True, PStr user_input, None)
          else Inr (False, PNone, Some ''Please provide your full name.'')
      | EMAIL \<Rightarrow>
          (case search_email user_input of
             Some g \<Rightarrow> Inr (True, PStr (str_lower g), None)
           | None \<Rightarrow> Inr (False, PNone, Some ''Please provide a valid email address.''))
      | VEHICLE_CHOICE \<Rightarrow>
          (case search_vin (str_upper user_input) of
             Some v \<Rightarrow>
               Inr (validate_vin sv v
                      (\<lambda>result. PDict [(''choice'', PStr ''vin''), (''vin_data'', PDict result)]))
           | None \<Rightarrow>
               if py_in ''vin'' lower then Inr (True, PStr ''vin'', None)
               else if any_in [''year'', ''make'', ''manual'', ''type'', ''other''] lower
               then Inr (True, PStr ''manual'', None)
               else Inr (False, PNone, None))
      | VEHICLE_VIN \<Rightarrow>
          (case search_vin (str_upper user_input) of
             Some v \<Rightarrow> Inr (validate_vin sv v PDict)
           | None \<Rightarrow> Inr (False, PNone, Some ''Please provide a valid 17-character VIN.''))
      | VEHICLE_YEAR \<Rightarrow>
          (case search_year user_input of
             Some g \<Rightarrow>
               (case py_int g of
                  None \<Rightarrow> Inl ValueError
                | Some yr \<Rightarrow>
                    if 1900 \<le> yr \<and> yr \<le> 2026 then Inr (True, PInt yr, None)
                    else Inr (False, PNone,
                              Some ''Please provide a valid vehicle year (e.g., 2020).''))
           | None \<Rightarrow>
               Inr (False, PNone, Some ''Please provide a valid vehicle year (e.g., 2020).''))
      | VEHICLE_MAKE \<Rightarrow>
          if 2 \<le> length user_input
          then (let yr = (case get_current_vehicle conversation of
                            Some vehicle \<Rightarrow> year vehicle
                          | None \<Rightarrow> PInt 2020);
                    result = validate_year_make (nhtsa sv) yr user_input
                in if truthy (dict_get result ''valid'')
                   then Inr (True, PStr (str_title user_input), None)
                   else Inr (False, PNone, error_text result ''Invalid make.''))
          else Inr (False, PNone, Some ''Please provide the vehicle make.'')
      | VEHICLE_BODY \<Rightarrow>
          (case find (\<lambda>body. py_in body lower) valid_bodies of
             Some body \<Rightarrow> Inr (True, PStr (str_title body), None)
           | None \<Rightarrow>
               if 2 \<le> length user_input then Inr (True, PStr (str_title user_input), None)
               else Inr (False, PNone,
                     Some ''Please provide the body type (e.g., Sedan, SUV, Truck).''))
      | VEHICLE_USE \<Rightarrow>
          if py_in ''commut'' lower then Inr (True, PStr ''commuting'', None)
          else if py_in ''commercial'' lower then Inr (True, PStr ''commercial'', None)
          else if py_in ''farm'' lower then Inr (True, PStr ''farming'', None)
          else if py_in ''business'' lower then Inr (True, PStr ''business'', None)
          else Inr (False, PNone,
                Some ''Please specify: Commuting, Commercial, Farming, or Business.'')
      | BLIND_SPOT_WARNING \<Rightarrow> Inr (blind_spot lower)
      | COMMUTE_DAYS \<Rightarrow>
          (case search_day user_input of
             Some g \<Rightarrow>
               (case py_int g of
                  None \<Rightarrow> Inl ValueError
                | Some n \<Rightarrow> Inr (True, PInt n, None))
           | None \<Rightarrow> Inr (False, PNone, Some ''Please provide days per week (1-7).''))
      | COMMUTE_MILES \<Rightarrow>
          positive_number (search_digits user_input)
            ''Please provide the one-way distance in miles.''
      | ANNUAL_MILEAGE \<Rightarrow>
          positive_number (search_digits (filter (\<lambda>c. c \<noteq> CHR '','') user_input))
            ''Please provide estimated annual mileage.''
      | ADD_ANOTHER_VEHICLE \<Rightarrow>
          if any_in [''yes'', ''yeah'', ''yep'', ''another'', ''add'', ''more''] lower
          then Inr (True, PBool True, None)
          else if any_in [''no'', ''nope'', ''done'', ''that's all'', ''that's it''] lower
          then Inr (True, PBool False, None)
          else Inr (False, PNone, Some ''Would you like to add another vehicle? (Yes/No)'')
      | LICENSE_TYPE \<Rightarrow>
          if py_in ''foreign'' lower then Inr (True, PStr ''foreign'', None)
          else if py_in ''personal'' lower then Inr (True, PStr ''personal'', None)
          else if py_in ''commercial'' lower \<or> py_in ''cdl'' lower
          then Inr (True, PStr ''commercial'', None)
          else Inr (False, PNone, Some ''Please specify: Foreign, Personal, or Commercial.'')
      | LICENSE_STATUS \<Rightarrow>
          if py_in ''valid'' lower \<or> py_in ''active'' lower \<or> py_in ''good'' lower
          then Inr (True, PStr ''valid'', None)
          else if py_in ''suspend'' lower then Inr (True, PStr ''suspended'', None)
          else Inr (False, PNone, Some ''Please specify: Valid or Suspended.'')
      | COMPLETE \<Rightarrow> Inr (True, PStr user_input, None))"

definition state_transitions :: "ConversationState \<Rightarrow> ConversationState option" where
  "state_transitions st =
     (case st of ZIP_CODE \<Rightarrow> Some FULL_NAME | FULL_NAME \<Rightarrow> Some EMAIL
      | EMAIL \<Rightarrow> Some VEHICLE_CHOICE | _ \<Rightarrow> None)"

definition has_vin_data :: "pyval \<Rightarrow> bool" where
  \<comment> \<open>\<open>isinstance(value, dict) and 'vin_data' in value\<close>\<close>
  "has_vin_data v = (case v of PDict d \<Rightarrow> has_key ''vin_data'' d | _ \<Rightarrow> False)"

definition get_next_state :: "ConversationState \<Rightarrow> pyval \<Rightarrow> conversation \<Rightarrow> ConversationState" where
  "get_next_state st v conversation =
     (case st of
        VEHICLE_CHOICE \<Rightarrow>
          if has_vin_data v then VEHICLE_USE
          else if v = PStr ''vin'' then VEHICLE_VIN
          else VEHICLE_YEAR
      | VEHICLE_VIN \<Rightarrow> VEHICLE_USE
      | VEHICLE_YEAR \<Rightarrow> VEHICLE_MAKE
      | VEHICLE_MAKE \<Rightarrow> VEHICLE_BODY
      | VEHICLE_BODY \<Rightarrow> VEHICLE_USE
      | VEHICLE_USE \<Rightarrow> BLIND_SPOT_WARNING
      | BLIND_SPOT_WARNING \<Rightarrow>
          (case get_current_vehicle conversation of
             Some vehicle \<Rightarrow>
               if vehicle_use vehicle = PStr ''commuting'' then COMMUTE_DAYS else ANNUAL_MILEAGE
           | None \<Rightarrow> ANNUAL_MILEAGE)
      | COMMUTE_DAYS \<Rightarrow> COMMUTE_MILES
      | COMMUTE_MILES \<Rightarrow> ADD_ANOTHER_VEHICLE
      | ANNUAL_MILEAGE \<Rightarrow> ADD_ANOTHER_VEHICLE
      | ADD_ANOTHER_VEHICLE \<Rightarrow> if truthy v then VEHICLE_CHOICE else LICENSE_TYPE
      | LICENSE_TYPE \<Rightarrow> if v = PStr ''foreign'' then COMPLETE else LICENSE_STATUS
      | LICENSE_STATUS \<Rightarrow> COMPLETE
      | _ \<Rightarrow> (case state_transitions st of Some next_state \<Rightarrow> next_state | None \<Rightarrow> st))"

definition set_current_vehicle :: "(vehicle \<Rightarrow> vehicle) \<Rightarrow> conversation \<Rightarrow> conversation" where
  \<comment> \<open>\<open>vehicle = self._get_current_vehicle(conversation)\<close>, then \<open>if vehicle:\<close> an assignment
      to fields of that object, which is the last element of \<open>conversation.vehicles\<close>\<close>
  "set_current_vehicle f c =
     (case get_current_vehicle c of
        None \<Rightarrow> c
      | Some vehicle \<Rightarrow> c\<lparr>vehicles := butlast (vehicles c) @ [f vehicle]\<rparr>)"

definition year_of :: "pyval \<Rightarrow> error + pyval" where
  \<comment> \<open>\<open>int(y) if y else None\<close>\<close>
  "year_of y =
     (if truthy y then (case int_of_val y of Inl e \<Rightarrow> Inl e | Inr n \<Rightarrow> Inr (PInt n))
      else Inr PNone)"

definition save_vin_data :: "pydict \<Rightarrow> conversation \<Rightarrow> conversation \<times> error option" where
  \<comment> \<open>the four assignments from a decode result to the open vehicle; when \<open>int\<close> raises, the
      VIN is assigned already and the other three fields are not\<close>
  "save_vin_data vin_data c =
     (let c1 = set_current_vehicle (\<lambda>vehicle. vehicle\<lparr>vin := dict_get vin_data ''vin''\<rparr>) c
      in case year_of (dict_get vin_data ''year'') of
           Inl e \<Rightarrow> (c1, Some e)
         | Inr y \<Rightarrow>
             (set_current_vehicle
                (\<lambda>vehicle. vehicle\<lparr>year := y, make_name := dict_get vin_data ''make'',
                                    body_type := dict_get vin_data ''body_class''\<rparr>) c1,
              None))"

definition save_value ::
  "ConversationState \<Rightarrow> pyval \<Rightarrow> conversation \<Rightarrow> conversation \<times> error option" where
  \<comment> \<open>The conversation as the call leaves it, and the exception when it raises.\<close>
  "save_value st v c =
     (case st of
        ZIP_CODE \<Rightarrow> (c\<lparr>zip_code := v\<rparr>, None)
      | FULL_NAME \<Rightarrow> (c\<lparr>full_name := v\<rparr>, None)
      | EMAIL \<Rightarrow> (c\<lparr>email := v\<rparr>, None)
      | VEHICLE_CHOICE \<Rightarrow>
          (let c1 = c\<lparr>vehicles := vehicles c @ [Vehicle (ident c)]\<rparr>
           in if has_vin_data v
              then (case v of
                      PDict d \<Rightarrow>
                        (case dict_get d ''vin_data'' of
                           PDict vin_data \<Rightarrow> save_vin_data vin_data c1
                         | _ \<Rightarrow> (c1, Some AttributeError))
                    | _ \<Rightarrow> (c1, None))
              else (c1, None))
      | VEHICLE_VIN \<Rightarrow>
          (case v of
             PDict d \<Rightarrow> if vehicles c \<noteq> [] then save_vin_data d c else (c, None)
           | _ \<Rightarrow> (c, None))
      | VEHICLE_YEAR \<Rightarrow> (set_current_vehicle (\<lambda>vehicle. vehicle\<lparr>year := v\<rparr>) c, None)
      | VEHICLE_MAKE \<Rightarrow> (set_current_vehicle (\<lambda>vehicle. vehicle\<lparr>make_name := v\<rparr>) c, None)
      | VEHICLE_BODY \<Rightarrow> (set_current_vehicle (\<lambda>vehicle. vehicle\<lparr>body_type := v\<rparr>) c, None)
      | VEHICLE_USE \<Rightarrow> (set_current_vehicle (\<lambda>vehicle. vehicle\<lparr>vehicle_use := v\<rparr>) c, None)
      | BLIND_SPOT_WARNING \<Rightarrow>
          (set_current_vehicle (\<lambda>vehicle. vehicle\<lparr>blind_spot_warning := v\<rparr>) c, None)
      | COMMUTE_DAYS \<Rightarrow> (set_current_vehicle (\<lambda>vehicle. vehicle\<lparr>days_per_week := v\<rparr>) c, None)
      | COMMUTE_MILES \<Rightarrow> (set_current_vehicle (\<lambda>vehicle. vehicle\<lparr>one_way_miles := v\<rparr>) c, None)
      | ANNUAL_MILEAGE \<Rightarrow> (set_current_vehicle (\<lambda>vehicle. vehicle\<lparr>annual_mileage := v\<rparr>) c, None)
      | LICENSE_TYPE \<Rightarrow> (c\<lparr>license_type := v\<rparr>, None)
      | LICENSE_STATUS \<Rightarrow> (c\<lparr>license_status := v\<rparr>, None)
      | _ \<Rightarrow> (c, None))"

definition frustrated_response :: "string \<Rightarrow> string" where
  "frustrated_response quote =
     ''I understand this can be frustrating. Here's something to brighten your day:''
     @ [CHR 0x0A, CHR 0x0A] @ quote @ [CHR 0x0A, CHR 0x0A]
     @ ''I'm here to help. Let's continue when you're ready.''"

definition guidance :: "string option \<Rightarrow> string option" where
  \<comment> \<open>\<open>additional_context\<close> on the rejecting branch\<close>
  "guidance error_msg =
     (case error_msg of
        None \<Rightarrow> None
      | Some e \<Rightarrow> if e = [] then None
                  else Some (''The user's input was invalid. Error: '' @ e))"

definition history :: "conversation \<Rightarrow> (string \<times> string) list" where
  "history c = map (\<lambda>m. (role m, content m)) (last10 (messages c))"

definition reply :: "string \<Rightarrow> conversation \<Rightarrow> conversation \<times> (error + string)" where
  \<comment> \<open>the end of a turn: the response is logged and returned\<close>
  "reply response c = (add_message ''assistant'' response c, Inr response)"

definition process_message ::
  "services \<Rightarrow> conversation \<Rightarrow> string \<Rightarrow> conversation \<times> (error + string)" where
  \<comment> \<open>The conversation after the turn, with the response, or with the exception that the
      turn raised; then the conversation is as the engine left it.\<close>
  "process_message sv conversation user_message =
     (let c0 = add_message ''user'' user_message conversation
      in if check_frustration user_message
         then reply (frustrated_response (get_quote sv)) c0
         else (let st = current_state c0
               in case validate_and_extract sv st user_message c0 of
                    Inl e \<Rightarrow> (c0, Inl e)
                  | Inr (is_valid, v, error_msg) \<Rightarrow>
                      (let conversation_history = history c0
                       in if is_valid \<and> v \<noteq> PNone
                          then (case save_value st v c0 of
                                  (c1, Some e) \<Rightarrow> (c1, Inl e)
                                | (c1, None) \<Rightarrow>
                                    (let c2 = c1\<lparr>current_state := get_next_state st v c1\<rparr>
                                     in reply (generate_response (chat sv) (current_state c2)
                                                 user_message conversation_history
                                                 (get_context c2) None) c2))
                          else reply (generate_response (chat sv) (current_state c0)
                                        user_message conversation_history (get_context c0)
                                        (guidance error_msg)) c0)))"

section \<open>Notions used by the properties\<close>

definition applicant_record ::
  "conversation \<Rightarrow> pyval \<times> pyval \<times> pyval \<times> pyval \<times> pyval \<times> vehicle list" where
  \<comment> \<open>every field of the applicant and every vehicle; not the state and not the message log\<close>
  "applicant_record c =
     (zip_code c, full_name c, email c, license_type c, license_status c, vehicles c)"

definition per_vehicle_states :: "ConversationState list" where
  "per_vehicle_states = [VEHICLE_VIN, VEHICLE_YEAR, VEHICLE_MAKE, VEHICLE_BODY, VEHICLE_USE,
     BLIND_SPOT_WARNING, COMMUTE_DAYS, COMMUTE_MILES, ANNUAL_MILEAGE]"

fun turns :: "(services \<times> string) list \<Rightarrow> conversation \<Rightarrow> conversation" where
  \<comment> \<open>successive turns, each with the answers that the collaborators give during it\<close>
  "turns [] c = c"
| "turns ((sv, x) # ts) c = turns ts (fst (process_message sv c x))"

definition unavailable :: "outcome \<Rightarrow> bool" where
  \<comment> \<open>the request timed out or failed\<close>
  "unavailable res = (case res of Timeout \<Rightarrow> True | Failed e \<Rightarrow> True | Payload rows \<Rightarrow> False)"

definition accepted :: "services \<Rightarrow> conversation \<Rightarrow> string \<Rightarrow> pyval option" where
  \<comment> \<open>the value that the turn hands to the mutator: there is one when the input is not a
      frustrated one and the validator of the current state accepts it\<close>
  "accepted sv c x =
     (if check_frustration x then None
      else (case validate_and_extract sv (current_state c) x c of
              Inl e \<Rightarrow> None
            | Inr (ok, v, m) \<Rightarrow> if ok then Some v else None))"

fun iteration :: "(services \<times> string) list \<Rightarrow> conversation \<Rightarrow> conversation option" where
  \<comment> \<open>the conversation after a run of turns of which none raises and the last one, and
      none before it, arrives in the state \<open>ADD_ANOTHER_VEHICLE\<close>; \<open>None\<close> for any other run\<close>
  "iteration [] c = None"
| "iteration ((sv, x) # ts) c =
     (case process_message sv c x of
        (c', Inl e) \<Rightarrow> None
      | (c', Inr response) \<Rightarrow>
          if current_state c' = ADD_ANOTHER_VEHICLE then (if ts = [] then Some c' else None)
          else iteration ts c')"

subsection \<open>Reachable conversations and the invariant of the flow\<close>

text \<open>
  Modelled from the spec: the module that creates a conversation is not among the sources.
  A conversation starts in the state \<open>ZIP_CODE\<close> without vehicles, and every turn of the
  engine, whatever the input and the answers of the collaborators, and whether it returns
  or raises, leads to a reachable conversation.
\<close>

definition use_consistent :: "vehicle \<Rightarrow> bool" where
  "use_consistent v =
     ((days_per_week v \<noteq> PNone \<or> one_way_miles v \<noteq> PNone \<longrightarrow> vehicle_use v = PStr ''commuting'')
      \<and> (annual_mileage v \<noteq> PNone \<longrightarrow> vehicle_use v \<noteq> PStr ''commuting''))"

definition unset :: "vehicle \<Rightarrow> bool" where
  "unset v = (days_per_week v = PNone \<and> one_way_miles v = PNone \<and> annual_mileage v = PNone)"

definition open_ok :: "ConversationState \<Rightarrow> vehicle \<Rightarrow> bool" where
  "open_ok st v =
     (if st \<in> {VEHICLE_VIN, VEHICLE_YEAR, VEHICLE_MAKE, VEHICLE_BODY, VEHICLE_USE, BLIND_SPOT_WARNING}
      then unset v
      else if st \<in> {COMMUTE_DAYS, COMMUTE_MILES}
      then vehicle_use v = PStr ''commuting'' \<and> annual_mileage v = PNone
      else if st = ANNUAL_MILEAGE
      then vehicle_use v \<noteq> PStr ''commuting'' \<and> days_per_week v = PNone \<and> one_way_miles v = PNone
      else True)"

definition flow_inv :: "conversation \<Rightarrow> bool" where
  "flow_inv c = (list_all use_consistent (vehicles c)
     \<and> (vehicles c \<noteq> [] \<longrightarrow> open_ok (current_state c) (last (vehicles c))))"

definition same_use :: "vehicle \<Rightarrow> vehicle \<Rightarrow> bool" where
  "same_use v w = (vehicle_use w = vehicle_use v \<and> days_per_week w = days_per_week v
     \<and> one_way_miles w = one_way_miles v \<and> annual_mileage w = annual_mileage v)"

inductive reachable :: "conversation \<Rightarrow> bool" where
  start: "current_state c = ZIP_CODE \<Longrightarrow> vehicles c = [] \<Longrightarrow> reachable c"
| turn: "reachable c \<Longrightarrow> reachable (fst (process_message sv c x))"

subsection \<open>Sample collaborators and conversations\<close>

definition offline :: services where
  \<comment> \<open>no lookup request succeeds and the language model fails\<close>
  "offline = \<lparr>nhtsa = \<lparr>decode_vin_values = (\<lambda>v. Timeout), makes_for_car = Timeout,
                         all_makes = Failed ''503''\<rparr>,
              chat = (\<lambda>r. None), get_quote = ''Keep going.''\<rparr>"

definition new_conversation :: conversation where
  "new_conversation = \<lparr>ident = 1, zip_code = PNone, full_name = PNone, email = PNone,
     license_type = PNone, license_status = PNone, current_state = ZIP_CODE, vehicles = [],
     messages = []\<rparr>"

definition done_conversation :: conversation where
  "done_conversation = new_conversation\<lparr>zip_code := PStr ''90210'', current_state := COMPLETE,
     vehicles := [(Vehicle 1)\<lparr>vehicle_use := PStr ''business'', annual_mileage := PInt 12000\<rparr>]\<rparr>"

definition commuter_script :: "(services \<times> string) list" where
  "commuter_script = map (Pair offline)
     [''90210'', ''Ann Lee'', ''ann@example.com'', ''manual entry'', ''2020'', ''honda'',
      ''suv'', ''commuting'', ''yes'', ''5 days'']"

definition commuter_vehicle :: vehicle where
  "commuter_vehicle = (Vehicle 1)\<lparr>year := PInt 2020, make_name := PStr ''Honda'',
     body_type := PStr ''Suv'', vehicle_use := PStr ''commuting'',
     blind_spot_warning := PBool True, days_per_week := PInt 5\<rparr>"

definition honda_lookup :: services where
  "honda_lookup = \<lparr>nhtsa = \<lparr>decode_vin_values =
        (\<lambda>v. Payload [[(''ErrorCode'', Some ''0''), (''Make'', Some ''HONDA''),
                        (''Model'', Some ''Accord''), (''ModelYear'', Some ''2003''),
                        (''BodyClass'', Some ''Coupe'')]]),
      makes_for_car = Payload [[(''MakeName'', Some ''Honda'')]], all_makes = Payload []\<rparr>,
    chat = (\<lambda>r. Some '' Thank you. ''), get_quote = ''Keep going.''\<rparr>"

definition choice_conversation :: conversation where
  "choice_conversation = new_conversation\<lparr>zip_code := PStr ''90210'',
     full_name := PStr ''Ann Lee'', email := PStr ''ann@example.com'',
     current_state := VEHICLE_CHOICE\<rparr>"

definition added_conversation :: conversation where
  "added_conversation = choice_conversation\<lparr>current_state := ADD_ANOTHER_VEHICLE,
     vehicles := [commuter_vehicle\<lparr>one_way_miles := PInt 12\<rparr>]\<rparr>"

definition odd_year_lookup :: services where
  \<comment> \<open>as \<open>honda_lookup\<close>, with a model year that is not a number\<close>
  "odd_year_lookup = honda_lookup\<lparr>nhtsa := (nhtsa honda_lookup)\<lparr>decode_vin_values :=
     (\<lambda>v. Payload [[(''ErrorCode'', Some ''0''), (''Make'', Some ''HONDA''),
                     (''ModelYear'', Some ''N/A'')]])\<rparr>\<rparr>"

definition echo :: services where
  \<comment> \<open>as \<open>offline\<close>, with a language model that answers with the additional context of
      the request, when there is one\<close>
  "echo = offline\<lparr>chat := req_additional_context\<rparr>"

definition business_script :: "(services \<times> string) list" where
  "business_script = map (Pair offline)
     [''manual'', ''2019'', ''ford'', ''truck'', ''business'', ''no'', ''12,000 miles'']"

section \<open>Auxiliary facts\<close>

lemma validate_add_message:
  "validate_and_extract sv st x (add_message r t c) = validate_and_extract sv st x c"
  by (cases st)
     (simp_all add: validate_and_extract_def add_message_def get_current_vehicle_def Let_def)

lemma get_context_add_message: "get_context (add_message r t c) = get_context c"
  by (simp add: get_context_def add_message_def)

lemma applicant_record_add_message: "applicant_record (add_message r t c) = applicant_record c"
  by (simp add: applicant_record_def add_message_def)

lemma current_state_add_message: "current_state (add_message r t c) = current_state c"
  by (simp add: add_message_def)

lemma process_rejected:
  assumes "validate_and_extract sv (current_state c) x c = Inr (False, v, msg)"
  shows "process_message sv c x =
           reply (if check_frustration x then frustrated_response (get_quote sv)
                  else generate_response (chat sv) (current_state c) x
                         (history (add_message ''user'' x c)) (get_context c) (guidance msg))
             (add_message ''user'' x c)"
  using assms
  by (simp add: process_message_def Let_def validate_add_message get_context_add_message
        current_state_add_message)

lemma process_complete:
  assumes "current_state c = COMPLETE"
  shows "process_message sv c x =
           reply (if check_frustration x then frustrated_response (get_quote sv)
                  else generate_response (chat sv) COMPLETE x
                         (history (add_message ''user'' x c)) (get_context c) None)
             (add_message ''user'' x c)"
proof -
  have v: "validate_and_extract sv COMPLETE x (add_message ''user'' x c)
             = Inr (True, PStr (str_strip x), None)"
    by (simp add: validate_and_extract_def)
  have s: "save_value COMPLETE w d = (d, None)" for w d
    by (simp add: save_value_def)
  have n: "get_next_state COMPLETE w d = COMPLETE" for w d
    by (simp add: get_next_state_def state_transitions_def)
  have u: "d\<lparr>current_state := COMPLETE\<rparr> = d" if "current_state d = COMPLETE"
    for d :: conversation
    using that by simp
  show ?thesis
    using assms
    by (simp add: process_message_def Let_def v s n u current_state_add_message
          get_context_add_message)
qed

lemma strip_blank: "list_all is_space raw \<Longrightarrow> str_strip raw = []"
proof -
  assume "list_all is_space raw"
  then have "\<forall>c\<in>set raw. is_space c"
    by (simp add: list_all_iff)
  then have d: "dropWhile is_space raw = []"
    by (simp only: dropWhile_eq_Nil_conv)
  show ?thesis
    unfolding str_strip_def d by simp
qed

lemma decode_unavailable:
  assumes "unavailable (decode_vin_values api v)"
  shows "\<exists>e. decode_vin api v = invalid e \<and> e \<noteq> []"
  using assms by (auto simp add: unavailable_def decode_vin_def split: outcome.splits)

lemma validate_vin_invalid:
  "decode_vin (nhtsa sv) v = invalid e \<Longrightarrow> validate_vin sv v wrap = (False, PNone, Some e)"
  by (simp add: validate_vin_def invalid_def Let_def dict_get_def truthy_def error_text_def
        dict_get_default_def)

lemma year_make_unavailable:
  assumes "unavailable (makes_for_car api)
     \<or> listed ''MakeName'' mk (makes_for_car api) = Some False \<and> unavailable (all_makes api)"
  shows "validate_year_make api yr mk = proceed_anyway"
  using assms
  by (auto simp add: unavailable_def validate_year_make_def listed_def split: outcome.splits)

lemma set_current_vehicle_vehicles:
  "vehicles (set_current_vehicle f c) =
     (if vehicles c = [] then [] else butlast (vehicles c) @ [f (last (vehicles c))])"
  by (simp add: set_current_vehicle_def get_current_vehicle_def)

lemma set_current_vehicle_state:
  "current_state (set_current_vehicle f c) = current_state c"
  by (simp add: set_current_vehicle_def get_current_vehicle_def)

lemma set_current_vehicle_twice:
  "set_current_vehicle g (set_current_vehicle f c) = set_current_vehicle (\<lambda>v. g (f v)) c"
  by (simp add: set_current_vehicle_def get_current_vehicle_def)

lemma list_all_butlast: "list_all P xs \<Longrightarrow> list_all P (butlast xs)"
  by (auto simp add: list_all_iff dest: in_set_butlastD)

lemma same_use_preserves:
  "same_use v w \<Longrightarrow> use_consistent w = use_consistent v \<and> open_ok st w = open_ok st v"
  by (simp add: same_use_def use_consistent_def open_ok_def unset_def)

lemma flow_inv_set_current:
  assumes "flow_inv c"
    and "\<And>v. use_consistent v \<Longrightarrow> open_ok (current_state c) v
           \<Longrightarrow> use_consistent (f v) \<and> open_ok st (f v)"
  shows "flow_inv ((set_current_vehicle f c)\<lparr>current_state := st\<rparr>)"
proof (cases "vehicles c = []")
  case True
  then show ?thesis
    by (simp add: flow_inv_def set_current_vehicle_vehicles)
next
  case False
  then have "use_consistent (last (vehicles c))"
    using assms(1) by (simp add: flow_inv_def list_all_iff)
  with assms False show ?thesis
    by (simp add: flow_inv_def set_current_vehicle_vehicles list_all_butlast)
qed

lemma flow_inv_state:
  assumes "flow_inv c" and "\<And>v. open_ok (current_state c) v \<Longrightarrow> open_ok st v"
  shows "flow_inv (c\<lparr>current_state := st\<rparr>)"
  using assms by (simp add: flow_inv_def)

lemma save_vin_data_shape:
  "\<exists>h. fst (save_vin_data d c) = set_current_vehicle h c \<and> (\<forall>v. same_use v (h v))"
proof (cases "year_of (dict_get d ''year'')")
  case (Inl e)
  then have "fst (save_vin_data d c)
      = set_current_vehicle (\<lambda>vehicle. vehicle\<lparr>vin := dict_get d ''vin''\<rparr>) c"
    by (simp add: save_vin_data_def)
  moreover have "\<forall>v. same_use v (v\<lparr>vin := dict_get d ''vin''\<rparr>)"
    by (simp add: same_use_def)
  ultimately show ?thesis
    by blast
next
  case (Inr y)
  then have "fst (save_vin_data d c)
      = set_current_vehicle
          (\<lambda>v. v\<lparr>vin := dict_get d ''vin'', year := y, make_name := dict_get d ''make'',
                  body_type := dict_get d ''body_class''\<rparr>) c"
    by (simp add: save_vin_data_def set_current_vehicle_twice)
  moreover have "\<forall>v. same_use v (v\<lparr>vin := dict_get d ''vin'', year := y,
      make_name := dict_get d ''make'', body_type := dict_get d ''body_class''\<rparr>)"
    by (simp add: same_use_def)
  ultimately show ?thesis
    by blast
qed

lemma flow_inv_append:
  assumes "flow_inv c" and "st \<in> {VEHICLE_CHOICE, VEHICLE_USE, VEHICLE_VIN, VEHICLE_YEAR}"
  shows "flow_inv (c\<lparr>vehicles := vehicles c @ [Vehicle i], current_state := st\<rparr>)"
  using assms
  by (auto simp add: flow_inv_def open_ok_def unset_def use_consistent_def Vehicle_def)

lemma flow_inv_same_use:
  assumes "flow_inv c" and "\<forall>v. same_use v (h v)"
  shows "flow_inv (set_current_vehicle h c)"
proof -
  have "flow_inv ((set_current_vehicle h c)\<lparr>current_state := current_state c\<rparr>)"
  proof (rule flow_inv_set_current [OF assms(1)])
    fix v
    assume "use_consistent v" and "open_ok (current_state c) v"
    moreover have "same_use v (h v)"
      using assms(2) by simp
    ultimately show "use_consistent (h v) \<and> open_ok (current_state c) (h v)"
      using same_use_preserves [of v "h v"] by simp
  qed
  then show ?thesis
    by (simp add: flow_inv_def set_current_vehicle_state)
qed

lemma save_value_simple:
  assumes "flow_inv c" and "current_state c = st"
    and "st \<notin> {VEHICLE_CHOICE, VEHICLE_VIN, BLIND_SPOT_WARNING}"
  shows "snd (save_value st v c) = None
    \<and> flow_inv ((fst (save_value st v c))\<lparr>current_state :=
          get_next_state st v (fst (save_value st v c))\<rparr>)"
proof (cases st)
  case VEHICLE_YEAR
  with assms flow_inv_set_current [OF assms(1), of "\<lambda>w. w\<lparr>year := v\<rparr>" VEHICLE_MAKE]
  show ?thesis
    by (simp add: save_value_def get_next_state_def open_ok_def unset_def use_consistent_def)
next
  case VEHICLE_MAKE
  with assms flow_inv_set_current [OF assms(1), of "\<lambda>w. w\<lparr>make_name := v\<rparr>" VEHICLE_BODY]
  show ?thesis
    by (simp add: save_value_def get_next_state_def open_ok_def unset_def use_consistent_def)
next
  case VEHICLE_BODY
  with assms flow_inv_set_current [OF assms(1), of "\<lambda>w. w\<lparr>body_type := v\<rparr>" VEHICLE_USE]
  show ?thesis
    by (simp add: save_value_def get_next_state_def open_ok_def unset_def use_consistent_def)
next
  case VEHICLE_USE
  with assms flow_inv_set_current [OF assms(1), of "\<lambda>w. w\<lparr>vehicle_use := v\<rparr>" BLIND_SPOT_WARNING]
  show ?thesis
    by (simp add: save_value_def get_next_state_def open_ok_def unset_def use_consistent_def)
next
  case COMMUTE_DAYS
  with assms flow_inv_set_current [OF assms(1), of "\<lambda>w. w\<lparr>days_per_week := v\<rparr>" COMMUTE_MILES]
  show ?thesis
    by (simp add: save_value_def get_next_state_def open_ok_def unset_def use_consistent_def)
next
  case COMMUTE_MILES
  with assms flow_inv_set_current [OF assms(1), of "\<lambda>w. w\<lparr>one_way_miles := v\<rparr>" ADD_ANOTHER_VEHICLE]
  show ?thesis
    by (simp add: save_value_def get_next_state_def open_ok_def unset_def use_consistent_def)
next
  case ANNUAL_MILEAGE
  with assms flow_inv_set_current [OF assms(1), of "\<lambda>w. w\<lparr>annual_mileage := v\<rparr>" ADD_ANOTHER_VEHICLE]
  show ?thesis
    by (simp add: save_value_def get_next_state_def open_ok_def unset_def use_consistent_def)
qed (use assms in \<open>simp_all add: save_value_def get_next_state_def state_transitions_def
       flow_inv_def open_ok_def\<close>)

lemma set_current_vehicle_id: "set_current_vehicle (\<lambda>w. w) c = c"
  by (simp add: set_current_vehicle_def get_current_vehicle_def)

lemma set_current_vehicle_update_state:
  "(set_current_vehicle h c)\<lparr>current_state := st\<rparr> = set_current_vehicle h (c\<lparr>current_state := st\<rparr>)"
  by (simp add: set_current_vehicle_def get_current_vehicle_def)

lemma same_use_refl: "same_use w w"
  by (simp add: same_use_def)

lemma save_value_vin_shape:
  "\<exists>h. fst (save_value VEHICLE_VIN v c) = set_current_vehicle h c \<and> (\<forall>w. same_use w (h w))"
proof (cases "\<exists>d. v = PDict d \<and> vehicles c \<noteq> []")
  case True
  then show ?thesis
    using save_vin_data_shape by (auto simp add: save_value_def)
next
  case False
  then have "fst (save_value VEHICLE_VIN v c) = set_current_vehicle (\<lambda>w. w) c"
    by (auto simp add: save_value_def set_current_vehicle_id split: pyval.splits)
  then show ?thesis
    using same_use_refl by blast
qed

lemma save_value_choice_shape:
  "\<exists>h. fst (save_value VEHICLE_CHOICE v c)
          = set_current_vehicle h (c\<lparr>vehicles := vehicles c @ [Vehicle (ident c)]\<rparr>)
      \<and> (\<forall>w. same_use w (h w))"
proof (cases "\<exists>d vd. v = PDict d \<and> has_key ''vin_data'' d \<and> dict_get d ''vin_data'' = PDict vd")
  case True
  then show ?thesis
    using save_vin_data_shape by (auto simp add: save_value_def has_vin_data_def)
next
  case False
  then have "fst (save_value VEHICLE_CHOICE v c)
      = set_current_vehicle (\<lambda>w. w) (c\<lparr>vehicles := vehicles c @ [Vehicle (ident c)]\<rparr>)"
    by (auto simp add: save_value_def set_current_vehicle_id has_vin_data_def Let_def
          split: pyval.splits)
  then show ?thesis
    using same_use_refl by blast
qed

lemma next_after_choice:
  "get_next_state VEHICLE_CHOICE v d \<in> {VEHICLE_CHOICE, VEHICLE_USE, VEHICLE_VIN, VEHICLE_YEAR}"
  by (simp add: get_next_state_def)

lemma save_value_flow:
  assumes "flow_inv c"
  shows "(snd (save_value (current_state c) v c) \<noteq> None
            \<longrightarrow> flow_inv (fst (save_value (current_state c) v c)))
    \<and> flow_inv ((fst (save_value (current_state c) v c))\<lparr>current_state :=
          get_next_state (current_state c) v (fst (save_value (current_state c) v c))\<rparr>)"
proof -
  let ?st = "current_state c"
  let ?c1 = "fst (save_value ?st v c)"
  consider (choice) "?st = VEHICLE_CHOICE" | (vin) "?st = VEHICLE_VIN"
    | (bsw) "?st = BLIND_SPOT_WARNING"
    | (simple) "?st \<notin> {VEHICLE_CHOICE, VEHICLE_VIN, BLIND_SPOT_WARNING}"
    by blast
  then show ?thesis
  proof cases
    case choice
    let ?a = "c\<lparr>vehicles := vehicles c @ [Vehicle (ident c)]\<rparr>"
    obtain h where h: "fst (save_value VEHICLE_CHOICE v c) = set_current_vehicle h ?a"
        "\<forall>w. same_use w (h w)"
      using save_value_choice_shape by blast
    have a: "flow_inv (?a\<lparr>current_state := st\<rparr>)"
      if "st \<in> {VEHICLE_CHOICE, VEHICLE_USE, VEHICLE_VIN, VEHICLE_YEAR}" for st
      using flow_inv_append [OF assms that] by simp
    have "flow_inv (set_current_vehicle h (?a\<lparr>current_state := st\<rparr>))"
      if "st \<in> {VEHICLE_CHOICE, VEHICLE_USE, VEHICLE_VIN, VEHICLE_YEAR}" for st
      using flow_inv_same_use [OF a [OF that] h(2)] .
    then have b: "flow_inv ((set_current_vehicle h ?a)\<lparr>current_state := st\<rparr>)"
      if "st \<in> {VEHICLE_CHOICE, VEHICLE_USE, VEHICLE_VIN, VEHICLE_YEAR}" for st
      using that by (simp add: set_current_vehicle_update_state)
    have "flow_inv ((set_current_vehicle h ?a)\<lparr>current_state := VEHICLE_CHOICE\<rparr>)"
      by (rule b) simp
    then have "flow_inv (set_current_vehicle h ?a)"
      using choice by (simp add: flow_inv_def set_current_vehicle_state)
    with b [OF next_after_choice] choice h(1) show ?thesis
      by simp
  next
    case vin
    obtain h where h: "fst (save_value VEHICLE_VIN v c) = set_current_vehicle h c"
        "\<forall>w. same_use w (h w)"
      using save_value_vin_shape by blast
    have 1: "flow_inv (set_current_vehicle h c)"
      using flow_inv_same_use [OF assms h(2)] .
    have "flow_inv ((set_current_vehicle h c)\<lparr>current_state := VEHICLE_USE\<rparr>)"
      using 1 vin
      by (intro flow_inv_state) (simp_all add: set_current_vehicle_state open_ok_def)
    with 1 vin h(1) show ?thesis
      by (simp add: get_next_state_def)
  next
    case bsw
    let ?f = "\<lambda>w. w\<lparr>blind_spot_warning := v\<rparr>"
    have s: "fst (save_value BLIND_SPOT_WARNING v c) = set_current_vehicle ?f c"
      by (simp add: save_value_def)
    have u: "\<forall>w. same_use w (?f w)"
      by (simp add: same_use_def)
    have 1: "flow_inv (set_current_vehicle ?f c)"
      using flow_inv_same_use [OF assms u] .
    have "flow_inv ((set_current_vehicle ?f c)\<lparr>current_state :=
        get_next_state BLIND_SPOT_WARNING v (set_current_vehicle ?f c)\<rparr>)"
      using 1 bsw
      by (auto simp add: flow_inv_def get_next_state_def get_current_vehicle_def
            set_current_vehicle_vehicles set_current_vehicle_state open_ok_def unset_def)
    with 1 bsw s show ?thesis
      by simp
  next
    case simple
    show ?thesis
      using save_value_simple [OF assms refl simple, of v] by simp
  qed
qed

lemma flow_inv_add_message: "flow_inv (add_message r t d) = flow_inv d"
  by (simp add: flow_inv_def add_message_def)

lemma flow_inv_turn:
  assumes "flow_inv c"
  shows "flow_inv (fst (process_message sv c x))"
proof -
  let ?c0 = "add_message ''user'' x c"
  have 0: "flow_inv ?c0"
    using assms by (simp add: flow_inv_add_message)
  show ?thesis
  proof (cases "validate_and_extract sv (current_state ?c0) x ?c0")
    case (Inl e)
    with 0 show ?thesis
      by (simp add: process_message_def Let_def reply_def flow_inv_add_message)
  next
    case (Inr t)
    obtain ok v m where t: "t = (ok, v, m)"
      by (cases t)
    obtain c1 r where sav: "save_value (current_state ?c0) v ?c0 = (c1, r)"
      by (cases "save_value (current_state ?c0) v ?c0")
    from save_value_flow [OF 0, of v] sav
    have f: "r \<noteq> None \<longrightarrow> flow_inv c1"
      "flow_inv (c1\<lparr>current_state := get_next_state (current_state ?c0) v c1\<rparr>)"
      by simp_all
    show ?thesis
      using 0 f Inr t sav
      by (auto simp add: process_message_def Let_def reply_def flow_inv_add_message
            split: option.splits)
  qed
qed

lemma reachable_flow_inv: "reachable c \<Longrightarrow> flow_inv c"
proof (induction rule: reachable.induct)
  case (start c)
  then show ?case
    by (simp add: flow_inv_def)
next
  case (turn c sv x)
  then show ?case
    by (simp add: flow_inv_turn)
qed

lemma reachable_turns: "reachable c \<Longrightarrow> reachable (turns ts c)"
proof (induction ts arbitrary: c)
  case Nil
  then show ?case by simp
next
  case (Cons t ts)
  obtain sv x where t: "t = (sv, x)"
    by (cases t)
  from Cons.prems have "reachable (fst (process_message sv c x))"
    by (rule reachable.turn)
  from Cons.IH [OF this] show ?case
    by (simp add: t)
qed

lemma commuter_run: "vehicles (turns commuter_script new_conversation) = [commuter_vehicle]"
  by code_simp

lemma accepted_value:
  "validate_and_extract sv st x c = Inr (True, v, m) \<Longrightarrow> v \<noteq> PNone"
  by (cases st)
     (auto simp add: validate_and_extract_def Let_def validate_vin_def positive_number_def
        blind_spot_def split: option.splits if_splits)

lemma save_value_vehicles:
  assumes "st \<noteq> VEHICLE_CHOICE"
  shows "\<exists>h. vehicles (fst (save_value st v c)) = vehicles (set_current_vehicle h c)"
proof (cases "st = VEHICLE_VIN")
  case True
  then show ?thesis
    using save_value_vin_shape [of v c] by auto
next
  case False
  have "vehicles (fst (save_value st v c)) = vehicles (set_current_vehicle (\<lambda>w. w) c) \<or>
    (\<exists>h. fst (save_value st v c) = set_current_vehicle h c)"
    using assms False by (cases st) (simp_all add: save_value_def set_current_vehicle_id, blast+)
  then show ?thesis
    by auto
qed

lemma vehicles_add_message: "vehicles (add_message r t c) = vehicles c"
  by (simp add: add_message_def)

lemma ident_add_message: "ident (add_message r t c) = ident c"
  by (simp add: add_message_def)

lemma turn_outcome:
  "process_message sv c x =
     (if check_frustration x
      then reply (frustrated_response (get_quote sv)) (add_message ''user'' x c)
      else (case validate_and_extract sv (current_state c) x c of
              Inl e \<Rightarrow> (add_message ''user'' x c, Inl e)
            | Inr (ok, v, m) \<Rightarrow>
                if ok
                then (case save_value (current_state c) v (add_message ''user'' x c) of
                        (c1, Some e) \<Rightarrow> (c1, Inl e)
                      | (c1, None) \<Rightarrow>
                          reply (generate_response (chat sv)
                                   (get_next_state (current_state c) v c1) x
                                   (history (add_message ''user'' x c))
                                   (get_context
                                      (c1\<lparr>current_state := get_next_state (current_state c) v c1\<rparr>))
                                   None)
                            (c1\<lparr>current_state := get_next_state (current_state c) v c1\<rparr>))
                else reply (generate_response (chat sv) (current_state c) x
                              (history (add_message ''user'' x c)) (get_context c) (guidance m))
                       (add_message ''user'' x c)))"
proof (cases "validate_and_extract sv (current_state c) x c")
  case (Inl e)
  then show ?thesis
    by (simp add: process_message_def Let_def validate_add_message current_state_add_message)
next
  case (Inr t)
  obtain ok v m where t: "t = (ok, v, m)"
    by (cases t)
  have "v \<noteq> PNone" if ok
    using that Inr t accepted_value [of sv "current_state c" x c v m] by simp
  then show ?thesis
    using Inr t
    by (auto simp add: process_message_def Let_def validate_add_message
          current_state_add_message get_context_add_message split: prod.splits option.splits)
qed

lemma returning_turn:
  assumes "snd (process_message sv c x) = Inr r"
  shows "accepted sv c x = None
       \<and> current_state (fst (process_message sv c x)) = current_state c
       \<and> vehicles (fst (process_message sv c x)) = vehicles c
     \<or> (\<exists>v c1. accepted sv c x = Some v
           \<and> save_value (current_state c) v (add_message ''user'' x c) = (c1, None)
           \<and> current_state (fst (process_message sv c x)) = get_next_state (current_state c) v c1
           \<and> vehicles (fst (process_message sv c x)) = vehicles c1)"
  using assms
  by (auto simp add: turn_outcome accepted_def reply_def current_state_add_message
        vehicles_add_message split: sum.splits prod.splits option.splits if_splits)

lemma next_state_in_vehicle:
  assumes "st \<in> insert VEHICLE_CHOICE (set per_vehicle_states)"
  shows "get_next_state st v d \<in> insert ADD_ANOTHER_VEHICLE (set per_vehicle_states)"
  using assms
  by (cases st)
     (simp_all add: per_vehicle_states_def get_next_state_def state_transitions_def
        split: option.splits)

lemma next_state_after_choice:
  "get_next_state VEHICLE_CHOICE v d \<noteq> VEHICLE_CHOICE
   \<and> get_next_state VEHICLE_CHOICE v d \<noteq> ADD_ANOTHER_VEHICLE"
  by (simp add: get_next_state_def)

lemma choice_not_per_vehicle: "VEHICLE_CHOICE \<notin> set per_vehicle_states"
  by (simp add: per_vehicle_states_def)

lemma turn_count:
  assumes "snd (process_message sv c x) = Inr r"
  shows "((current_state c = VEHICLE_CHOICE
            \<and> current_state (fst (process_message sv c x)) \<noteq> VEHICLE_CHOICE)
          = (current_state c = VEHICLE_CHOICE \<and> accepted sv c x \<noteq> None))
       \<and> (if current_state c = VEHICLE_CHOICE
              \<and> current_state (fst (process_message sv c x)) \<noteq> VEHICLE_CHOICE
           then \<exists>w. vehicles (fst (process_message sv c x)) = vehicles c @ [w]
           else length (vehicles (fst (process_message sv c x))) = length (vehicles c)
              \<and> butlast (vehicles (fst (process_message sv c x))) = butlast (vehicles c))"
proof -
  let ?c0 = "add_message ''user'' x c"
  let ?c' = "fst (process_message sv c x)"
  from returning_turn [OF assms] show ?thesis
  proof (elim disjE exE conjE)
    assume "accepted sv c x = None" "current_state ?c' = current_state c"
      "vehicles ?c' = vehicles c"
    then show ?thesis
      by simp
  next
    fix v c1
    assume saved: "accepted sv c x = Some v"
      "save_value (current_state c) v ?c0 = (c1, None)"
      "current_state ?c' = get_next_state (current_state c) v c1" "vehicles ?c' = vehicles c1"
    show ?thesis
    proof (cases "current_state c = VEHICLE_CHOICE")
      case True
      have n: "current_state ?c' \<noteq> VEHICLE_CHOICE"
        using next_state_after_choice [of v c1] saved(3) True by simp
      obtain h where "fst (save_value VEHICLE_CHOICE v ?c0)
          = set_current_vehicle h (?c0\<lparr>vehicles := vehicles ?c0 @ [Vehicle (ident ?c0)]\<rparr>)"
        using save_value_choice_shape by blast
      then have "vehicles c1 = vehicles c @ [h (Vehicle (ident c))]"
        using saved(2) True
        by (simp add: set_current_vehicle_vehicles vehicles_add_message ident_add_message)
      with n True saved(1,4) show ?thesis
        by simp
    next
      case False
      obtain h where "vehicles (fst (save_value (current_state c) v ?c0))
          = vehicles (set_current_vehicle h ?c0)"
        using save_value_vehicles [OF False] by blast
      then have "length (vehicles c1) = length (vehicles c)
          \<and> butlast (vehicles c1) = butlast (vehicles c)"
        using saved(2) by (simp add: set_current_vehicle_vehicles vehicles_add_message)
      with False saved(4) show ?thesis
        by simp
    qed
  qed
qed

lemma turn_state:
  assumes "snd (process_message sv c x) = Inr r"
    and "current_state c \<in> insert VEHICLE_CHOICE (set per_vehicle_states)"
  shows "current_state (fst (process_message sv c x))
           \<in> insert ADD_ANOTHER_VEHICLE (insert VEHICLE_CHOICE (set per_vehicle_states))
       \<and> (current_state c \<noteq> VEHICLE_CHOICE
            \<longrightarrow> current_state (fst (process_message sv c x)) \<noteq> VEHICLE_CHOICE)
       \<and> (current_state c = VEHICLE_CHOICE
            \<longrightarrow> current_state (fst (process_message sv c x)) \<noteq> ADD_ANOTHER_VEHICLE)"
  using returning_turn [OF assms(1)]
proof (elim disjE exE conjE)
  assume "current_state (fst (process_message sv c x)) = current_state c"
  with assms(2) show ?thesis
    by simp
next
  fix v c1
  assume n: "current_state (fst (process_message sv c x))
      = get_next_state (current_state c) v c1"
  have 1: "get_next_state (current_state c) v c1
      \<in> insert ADD_ANOTHER_VEHICLE (set per_vehicle_states)"
    using next_state_in_vehicle [OF assms(2)] .
  then have 2: "get_next_state (current_state c) v c1 \<noteq> VEHICLE_CHOICE"
    using choice_not_per_vehicle by auto
  have 3: "current_state c = VEHICLE_CHOICE
      \<longrightarrow> get_next_state (current_state c) v c1 \<noteq> ADD_ANOTHER_VEHICLE"
    using next_state_after_choice [of v c1] by simp
  from 1 2 3 show ?thesis
    unfolding n by blast
qed

lemma iteration_count:
  assumes "current_state c \<in> insert VEHICLE_CHOICE (set per_vehicle_states)"
    and "iteration ts c = Some d"
  shows "current_state d = ADD_ANOTHER_VEHICLE
       \<and> length (vehicles d)
           = length (vehicles c) + (if current_state c = VEHICLE_CHOICE then 1 else 0)"
  using assms
proof (induction ts arbitrary: c)
  case Nil
  then show ?case
    by simp
next
  case (Cons t ts)
  obtain sv x where t: "t = (sv, x)"
    by (cases t)
  let ?c' = "fst (process_message sv c x)"
  from Cons.prems(2) obtain r where r: "snd (process_message sv c x) = Inr r"
    by (auto simp add: t split: prod.splits sum.splits)
  note count = turn_count [OF r]
  note state = turn_state [OF r Cons.prems(1)]
  show ?case
  proof (cases "current_state ?c' = ADD_ANOTHER_VEHICLE")
    case True
    then have d: "d = ?c'"
      using Cons.prems(2) r by (auto simp add: t split: prod.splits sum.splits if_splits)
    have "current_state c \<noteq> VEHICLE_CHOICE"
      using state True by auto
    with count True d show ?thesis
      by simp
  next
    case False
    then have i: "iteration ts ?c' = Some d"
      using Cons.prems(2) r by (auto simp add: t split: prod.splits sum.splits)
    have s: "current_state ?c' \<in> insert VEHICLE_CHOICE (set per_vehicle_states)"
      using state False by auto
    from Cons.IH [OF s i] count state show ?thesis
      by (auto split: if_splits)
  qed
qed

lemma py_in_shorter:
  assumes "py_in w s" and "u = take n w"
  shows "py_in u s"
  using assms(1)
proof (induction s)
  case Nil
  then show ?case
    by (simp add: assms(2))
next
  case (Cons c cs)
  show ?case
  proof (cases "take (length w) (c # cs) = w")
    case True
    then have "take (length u) (c # cs) = u"
      by (metis assms(2) length_take min.cobounded2 min.commute take_take)
    then show ?thesis
      by simp
  next
    case False
    with Cons show ?thesis
      by simp
  qed
qed

text \<open>
  The negative word "doesn't" begins with the affirmative word "does": an input in which
  it occurs is read as a yes.
\<close>

lemma doesnt_is_affirmative:
  assumes "py_in ''doesn't'' l"
  shows "blind_spot l = (True, PBool True, None)"
proof -
  have "py_in ''does'' l"
    using assms by (rule py_in_shorter [where n = 4]) simp
  then show ?thesis
    by (simp add: blind_spot_def any_in_def affirmative_words_def)
qed

lemma dict_get_set: "dict_get (dict_set d k w) k' = (if k' = k then w else dict_get d k')"
  by (simp add: dict_get_def dict_set_def update_conv')

lemma inline_vin_accepted:
  assumes "search_vin (str_upper (str_strip x)) = Some v"
    and "truthy (dict_get (decode_vin (nhtsa sv) v) ''valid'')"
  shows "validate_and_extract sv VEHICLE_CHOICE x c =
           Inr (True, PDict [(''choice'', PStr ''vin''),
                             (''vin_data'',
                              PDict (dict_set (decode_vin (nhtsa sv) v) ''vin'' (PStr v)))],
                None)"
  using assms by (simp add: validate_and_extract_def validate_vin_def Let_def)

lemma save_inline_vin:
  assumes "year_of (dict_get d ''year'') = Inr y"
  shows "save_value VEHICLE_CHOICE (PDict [(''choice'', PStr ''vin''), (''vin_data'', PDict d)]) c =
           (c\<lparr>vehicles := vehicles c @
                [(Vehicle (ident c))\<lparr>vin := dict_get d ''vin'', year := y,
                   make_name := dict_get d ''make'', body_type := dict_get d ''body_class''\<rparr>]\<rparr>,
            None)"
  using assms
  by (simp add: save_value_def has_vin_data_def has_key_def dict_get_def [of "[_, _]"]
        save_vin_data_def set_current_vehicle_def get_current_vehicle_def Let_def)

text \<open>
  A decode result that is valid but whose year is not an integer literal makes \<open>int\<close> raise
  in the mutator: the turn ends with \<open>ValueError\<close>, the new vehicle is there with its VIN
  only, and the state is still \<open>VEHICLE_CHOICE\<close>.
\<close>

lemma inline_vin_year_not_a_number:
  "truthy (dict_get (decode_vin (nhtsa odd_year_lookup) ''1HGCM82633A004352'') ''valid'')
   \<and> snd (process_message odd_year_lookup choice_conversation ''1HGCM82633A004352'')
       = Inl ValueError
   \<and> vehicles (fst (process_message odd_year_lookup choice_conversation ''1HGCM82633A004352''))
       = [(Vehicle 1)\<lparr>vin := PStr ''1HGCM82633A004352''\<rparr>]
   \<and> current_state (fst (process_message odd_year_lookup choice_conversation
         ''1HGCM82633A004352'')) = VEHICLE_CHOICE"
  by code_simp

text \<open>
  \<open>int\<close> does not take the separators 28 to 31 for whitespace, as \<open>str.strip()\<close> does, and
  takes the no-break space for it.
\<close>

lemma int_whitespace:
  "py_int (''2003'' @ [CHR 0x1F]) = None \<and> py_int (''2003'' @ [CHR 0xA0]) = Some 2003
   \<and> str_strip (''2003'' @ [CHR 0x1F]) = ''2003''"
  by code_simp

section \<open>The properties\<close>

text \<open>
  C10: In each per-vehicle state, when the conversation has no vehicle, the accessor of the
  open vehicle returns none and the mutator returns the conversation as it was, without an
  exception: the accepted value is dropped.
\<close>

theorem empty_vehicles_discard:
  assumes "st \<in> set per_vehicle_states" and "vehicles c = []"
  shows "get_current_vehicle c = None \<and> save_value st v c = (c, None)"
  using assms
  by (auto simp add: per_vehicle_states_def get_current_vehicle_def save_value_def
        set_current_vehicle_def split: pyval.splits)

theorem empty_vehicles_discard_witness:
  "VEHICLE_USE \<in> set per_vehicle_states \<and> vehicles new_conversation = []
   \<and> get_current_vehicle new_conversation = None
   \<and> save_value VEHICLE_USE (PStr ''commuting'') new_conversation = (new_conversation, None)"
proof -
  have s: "VEHICLE_USE \<in> set per_vehicle_states"
    by (simp add: per_vehicle_states_def)
  have e: "vehicles new_conversation = []"
    by (simp add: new_conversation_def)
  show ?thesis
    using s e empty_vehicles_discard [OF s e, of "PStr ''commuting''"] by simp
qed

text \<open>
  C9: The year given to the make check has no effect on its verdict: with the same answers
  of the lookup service, any two years give the same result, and the validator of the state
  \<open>VEHICLE_MAKE\<close> returns the same for any two conversations, whatever the year of their
  open vehicles.
\<close>

theorem year_noninterference:
  "validate_year_make api y1 mk = validate_year_make api y2 mk
   \<and> validate_and_extract sv VEHICLE_MAKE x c1 = validate_and_extract sv VEHICLE_MAKE x c2"
  by (simp add: validate_year_make_def validate_and_extract_def Let_def)

theorem year_noninterference_witness:
  "validate_year_make (nhtsa offline) (PInt 1999) ''Honda''
     = validate_year_make (nhtsa offline) PNone ''Honda''
   \<and> validate_and_extract offline VEHICLE_MAKE ''Honda'' new_conversation
     = validate_and_extract offline VEHICLE_MAKE ''Honda'' done_conversation"
  using year_noninterference [of "nhtsa offline" "PInt 1999" "''Honda''" PNone offline
      "''Honda''" new_conversation done_conversation]
  by simp

text \<open>
  C6: Once the state is \<open>COMPLETE\<close>, a turn never raises, and after any number of further
  turns, whatever the inputs and the answers of the collaborators, the state is \<open>COMPLETE\<close>
  and every field of the applicant and of the vehicles is as it was (only the message log
  grows).
\<close>

theorem terminal_stability:
  "current_state c = COMPLETE \<Longrightarrow>
     current_state (turns ts c) = COMPLETE \<and> applicant_record (turns ts c) = applicant_record c
     \<and> (\<exists>response. snd (process_message sv c x) = Inr response)"
proof (induction ts arbitrary: c)
  case Nil
  then show ?case
    by (simp add: process_complete reply_def)
next
  case (Cons t ts)
  obtain sv' x' where t: "t = (sv', x')"
    by (cases t)
  let ?c = "fst (process_message sv' c x')"
  have c: "current_state ?c = COMPLETE" "applicant_record ?c = applicant_record c"
    using Cons.prems
    by (simp_all add: process_complete reply_def applicant_record_add_message
          current_state_add_message)
  from Cons.IH [OF c(1)] c(2) Cons.prems show ?case
    by (simp add: t process_complete reply_def)
qed

theorem terminal_stability_witness:
  "current_state done_conversation = COMPLETE
   \<and> current_state (turns [(offline, ''2021''), (offline, ''no'')] done_conversation) = COMPLETE
   \<and> applicant_record (turns [(offline, ''2021''), (offline, ''no'')] done_conversation)
       = applicant_record done_conversation
   \<and> (\<exists>response. snd (process_message offline done_conversation ''90001'') = Inr response)"
proof -
  have h: "current_state done_conversation = COMPLETE"
    by (simp add: done_conversation_def)
  show ?thesis
    using h terminal_stability [OF h, of "[(offline, ''2021''), (offline, ''no'')]" offline
        "''90001''"]
    by simp
qed

text \<open>
  C5: When the validator of the current state rejects the input, the turn does not raise,
  and only logs the user message and the response: the state and the whole applicant record,
  vehicles included, are as before. The reason of the rejection goes into the request to the
  reply generator, as its additional context behind a fixed prefix, and nowhere else; a
  reason that is absent or empty gives no additional context.
\<close>

theorem rejection_atomic:
  assumes "validate_and_extract sv (current_state c) x c = Inr (False, v, msg)"
  shows "process_message sv c x =
           reply (if check_frustration x then frustrated_response (get_quote sv)
                  else (case chat sv
                               \<lparr>req_state = current_state c, req_user_message = x,
                                req_history = last10 (history (add_message ''user'' x c)),
                                req_context = get_context c,
                                req_additional_context =
                                  (case msg of
                                     None \<Rightarrow> None
                                   | Some e \<Rightarrow>
                                       if e = [] then None
                                       else Some (''The user's input was invalid. Error: '' @ e))\<rparr> of
                          Some text \<Rightarrow> str_strip text
                        | None \<Rightarrow> fallback_responses (current_state c)))
             (add_message ''user'' x c)
         \<and> current_state (fst (process_message sv c x)) = current_state c
         \<and> applicant_record (fst (process_message sv c x)) = applicant_record c"
proof -
  have g: "(case guidance msg of None \<Rightarrow> None | Some a \<Rightarrow> if a = [] then None else Some a)
      = (case msg of
           None \<Rightarrow> None
         | Some e \<Rightarrow>
             if e = [] then None else Some (''The user's input was invalid. Error: '' @ e))"
    by (cases msg) (simp_all add: guidance_def)
  show ?thesis
    by (simp add: process_rejected [OF assms] generate_response_def g reply_def
          applicant_record_add_message current_state_add_message)
qed

theorem rejection_atomic_witness:
  "validate_and_extract echo (current_state new_conversation) ''zip 123'' new_conversation
     = Inr (False, PNone, Some ''Please provide a valid 5-digit ZIP code.'')
   \<and> snd (process_message echo new_conversation ''zip 123'')
     = Inr ''The user's input was invalid. Error: Please provide a valid 5-digit ZIP code.''
   \<and> current_state (fst (process_message echo new_conversation ''zip 123''))
     = current_state new_conversation
   \<and> applicant_record (fst (process_message echo new_conversation ''zip 123''))
     = applicant_record new_conversation"
proof -
  have h: "validate_and_extract echo (current_state new_conversation) ''zip 123''
             new_conversation
           = Inr (False, PNone, Some ''Please provide a valid 5-digit ZIP code.'')"
    by code_simp
  have f: "\<not> check_frustration ''zip 123''"
    by code_simp
  have s: "str_strip
        ''The user's input was invalid. Error: Please provide a valid 5-digit ZIP code.''
      = ''The user's input was invalid. Error: Please provide a valid 5-digit ZIP code.''"
    by code_simp
  have c: "chat echo = req_additional_context"
    by (simp add: echo_def)
  show ?thesis
    using h rejection_atomic [OF h]
    by (simp add: f c s reply_def current_state_add_message applicant_record_add_message)
qed

text \<open>
  C7: The two fallbacks differ. When a request of the make check times out or fails, be it
  the first or, the make not being in the first list, the second, \<open>validate_year_make\<close>
  returns a valid verdict with a warning, and the validator of \<open>VEHICLE_MAKE\<close> accepts a
  make of two characters or more. When the request of the VIN decode times out or fails,
  \<open>decode_vin\<close> returns an invalid verdict with an error text, and the validators of
  \<open>VEHICLE_CHOICE\<close> and \<open>VEHICLE_VIN\<close> reject an input holding that VIN, with that text.
\<close>

theorem asymmetric_fallback:
  "(unavailable (makes_for_car (nhtsa sv))
      \<or> listed ''MakeName'' mk (makes_for_car (nhtsa sv)) = Some False
          \<and> unavailable (all_makes (nhtsa sv))
    \<longrightarrow> validate_year_make (nhtsa sv) yr mk =
          [(''valid'', PBool True),
           (''warning'', PStr ''Could not verify make, proceeding anyway.'')]
        \<and> (str_strip x = mk \<and> 2 \<le> length mk
           \<longrightarrow> validate_and_extract sv VEHICLE_MAKE x c = Inr (True, PStr (str_title mk), None)))
   \<and> (unavailable (decode_vin_values (nhtsa sv) v)
    \<longrightarrow> (\<exists>e. e \<noteq> []
           \<and> decode_vin (nhtsa sv) v = [(''valid'', PBool False), (''error'', PStr e)]
           \<and> (search_vin (str_upper (str_strip x)) = Some v
              \<longrightarrow> validate_and_extract sv VEHICLE_CHOICE x c = Inr (False, PNone, Some e)
                \<and> validate_and_extract sv VEHICLE_VIN x c = Inr (False, PNone, Some e))))"
proof (intro conjI impI)
  assume h: "unavailable (makes_for_car (nhtsa sv))
      \<or> listed ''MakeName'' mk (makes_for_car (nhtsa sv)) = Some False
          \<and> unavailable (all_makes (nhtsa sv))"
  show "validate_year_make (nhtsa sv) yr mk =
          [(''valid'', PBool True),
           (''warning'', PStr ''Could not verify make, proceeding anyway.'')]"
    using year_make_unavailable [OF h] by (simp add: proceed_anyway_def)
  assume "str_strip x = mk \<and> 2 \<le> length mk"
  then show "validate_and_extract sv VEHICLE_MAKE x c = Inr (True, PStr (str_title mk), None)"
    using year_make_unavailable [OF h]
    by (simp add: validate_and_extract_def Let_def proceed_anyway_def dict_get_def truthy_def)
next
  assume "unavailable (decode_vin_values (nhtsa sv) v)"
  then obtain e where e: "decode_vin (nhtsa sv) v = invalid e" "e \<noteq> []"
    using decode_unavailable by blast
  have "search_vin (str_upper (str_strip x)) = Some v
      \<longrightarrow> validate_and_extract sv VEHICLE_CHOICE x c = Inr (False, PNone, Some e)
        \<and> validate_and_extract sv VEHICLE_VIN x c = Inr (False, PNone, Some e)"
    by (simp add: validate_and_extract_def Let_def validate_vin_invalid [OF e(1)])
  with e show "\<exists>e. e \<noteq> []
           \<and> decode_vin (nhtsa sv) v = [(''valid'', PBool False), (''error'', PStr e)]
           \<and> (search_vin (str_upper (str_strip x)) = Some v
              \<longrightarrow> validate_and_extract sv VEHICLE_CHOICE x c = Inr (False, PNone, Some e)
                \<and> validate_and_extract sv VEHICLE_VIN x c = Inr (False, PNone, Some e))"
    by (auto simp add: invalid_def)
qed

theorem asymmetric_fallback_witness:
  "unavailable (makes_for_car (nhtsa offline))
   \<and> str_strip ''honda'' = ''honda'' \<and> 2 \<le> length ''honda''
   \<and> unavailable (decode_vin_values (nhtsa offline) ''1HGCM82633A004352'')
   \<and> search_vin (str_upper (str_strip ''1hgcm82633a004352'')) = Some ''1HGCM82633A004352''
   \<and> validate_and_extract offline VEHICLE_MAKE ''honda'' new_conversation
       = Inr (True, PStr ''Honda'', None)
   \<and> validate_and_extract offline VEHICLE_VIN ''1hgcm82633a004352'' new_conversation
       = Inr (False, PNone, Some ''Vehicle verification service timed out. Please try again.'')"
proof -
  have a: "unavailable (makes_for_car (nhtsa offline))"
    by (simp add: offline_def unavailable_def)
  have b: "str_strip ''honda'' = ''honda'' \<and> 2 \<le> length ''honda''"
    by code_simp
  have t: "str_title ''honda'' = ''Honda''"
    by code_simp
  have m: "validate_and_extract offline VEHICLE_MAKE ''honda'' new_conversation
       = Inr (True, PStr ''Honda'', None)"
    using asymmetric_fallback [of offline "''honda''" "PInt 2020" "''honda''" new_conversation
        "''1HGCM82633A004352''"] a b t
    by simp
  have d: "unavailable (decode_vin_values (nhtsa offline) ''1HGCM82633A004352'')"
    by (simp add: offline_def unavailable_def)
  have s: "search_vin (str_upper (str_strip ''1hgcm82633a004352'')) = Some ''1HGCM82633A004352''"
    by code_simp
  have r: "decode_vin (nhtsa offline) ''1HGCM82633A004352''
       = [(''valid'', PBool False),
          (''error'', PStr ''Vehicle verification service timed out. Please try again.'')]"
    by (simp add: decode_vin_def offline_def invalid_def)
  have "validate_and_extract offline VEHICLE_VIN ''1hgcm82633a004352'' new_conversation
       = Inr (False, PNone, Some ''Vehicle verification service timed out. Please try again.'')"
    using asymmetric_fallback [of offline "''honda''" "PInt 2020" "''1hgcm82633a004352''"
        new_conversation "''1HGCM82633A004352''"] d s r
    by auto
  with a b d s m show ?thesis
    by simp
qed

text \<open>
  C4, as the code has it: on an input that is empty or holds only whitespace, the validator
  of every state but \<open>COMPLETE\<close> and \<open>VEHICLE_CHOICE\<close> rejects with a guidance text that is
  not empty; the validator of \<open>VEHICLE_CHOICE\<close> rejects with no guidance; and in the state
  \<open>COMPLETE\<close>, which has no validator of its own, the input is accepted as it is, as the
  empty string. No case raises.
\<close>

theorem blank_input:
  assumes "list_all is_space raw"
  shows "(st = COMPLETE \<longrightarrow> validate_and_extract sv st raw c = Inr (True, PStr [], None))
    \<and> (st = VEHICLE_CHOICE \<longrightarrow> validate_and_extract sv st raw c = Inr (False, PNone, None))
    \<and> (st \<noteq> COMPLETE \<and> st \<noteq> VEHICLE_CHOICE
         \<longrightarrow> (\<exists>msg. msg \<noteq> [] \<and> validate_and_extract sv st raw c = Inr (False, PNone, Some msg)))"
  using strip_blank [OF assms]
  by (cases st)
     (simp_all add: validate_and_extract_def Let_def str_lower_def str_upper_def search_zip_def
        search_email_def search_vin_def search_year_def search_day_def search_digits_def
        any_in_def valid_bodies_def blind_spot_def affirmative_words_def negative_words_def
        positive_number_def)

theorem blank_input_witness:
  "list_all is_space [CHR '' '', CHR 0x09]
   \<and> (\<exists>msg. msg \<noteq> []
         \<and> validate_and_extract offline VEHICLE_USE [CHR '' '', CHR 0x09] new_conversation
             = Inr (False, PNone, Some msg))"
proof -
  have h: "list_all is_space [CHR '' '', CHR 0x09]"
    by code_simp
  show ?thesis
    using h blank_input [OF h, of VEHICLE_USE offline new_conversation] by simp
qed

text \<open>
  C4 as stated fails in the state \<open>COMPLETE\<close>: an input of two spaces is accepted there.
\<close>

theorem blank_input_complete:
  "list_all is_space ''  ''
   \<and> validate_and_extract offline COMPLETE ''  '' done_conversation = Inr (True, PStr [], None)"
  by code_simp

text \<open>
  C8 fails on the code, by a slip of the code: the affirmative words are tested first, and
  the negative word "doesn't" holds the affirmative word "does". So "No, it doesn't" is
  accepted as a yes, while the same two tests in the other order accept it as a no: the
  outcome depends on the order, and the word "doesn't" never decides.
\<close>

theorem doesnt_read_as_yes:
  "str_lower (str_strip ''No, it doesn't'') = ''no, it doesn't''
   \<and> any_in negative_words ''no, it doesn't''
   \<and> validate_and_extract offline BLIND_SPOT_WARNING ''No, it doesn't'' new_conversation
       = Inr (True, PBool True, None)
   \<and> blind_spot_negative_first ''no, it doesn't'' = (True, PBool False, None)"
  by code_simp

text \<open>
  C2: In every reachable conversation, a vehicle has its days per week or its one-way miles
  populated only when its use is "commuting", and its annual mileage only when its use is
  not "commuting"; so no vehicle has both groups populated.
\<close>

theorem use_fields_exclusive:
  assumes "reachable c" and "v \<in> set (vehicles c)"
  shows "(days_per_week v \<noteq> PNone \<or> one_way_miles v \<noteq> PNone \<longrightarrow> vehicle_use v = PStr ''commuting'')
    \<and> (annual_mileage v \<noteq> PNone \<longrightarrow> vehicle_use v \<noteq> PStr ''commuting'')
    \<and> \<not> ((days_per_week v \<noteq> PNone \<or> one_way_miles v \<noteq> PNone) \<and> annual_mileage v \<noteq> PNone)"
proof -
  have "use_consistent v"
    using reachable_flow_inv [OF assms(1)] assms(2) by (simp add: flow_inv_def list_all_iff)
  then show ?thesis
    by (auto simp add: use_consistent_def)
qed

theorem use_fields_exclusive_witness:
  "reachable (turns commuter_script new_conversation)
   \<and> commuter_vehicle \<in> set (vehicles (turns commuter_script new_conversation))
   \<and> days_per_week commuter_vehicle \<noteq> PNone
   \<and> vehicle_use commuter_vehicle = PStr ''commuting''
   \<and> annual_mileage commuter_vehicle = PNone"
proof -
  have s: "reachable new_conversation"
    by (rule reachable.start) (simp_all add: new_conversation_def)
  have r: "reachable (turns commuter_script new_conversation)"
    using s by (rule reachable_turns)
  have m: "commuter_vehicle \<in> set (vehicles (turns commuter_script new_conversation))"
    by (simp add: commuter_run)
  have d: "days_per_week commuter_vehicle \<noteq> PNone"
    by (simp add: commuter_vehicle_def)
  show ?thesis
    using r m d use_fields_exclusive [OF r m] by simp
qed

text \<open>
  C1, as the code has it: an accepted "yes" in the state \<open>ADD_ANOTHER_VEHICLE\<close> sets the
  state to \<open>VEHICLE_CHOICE\<close> and leaves the vehicles as they are. Of the turns that return,
  the one that leaves \<open>VEHICLE_CHOICE\<close>, which is the one whose input is accepted there,
  appends one vehicle, and every other leaves the number of vehicles, and every vehicle but
  the last, as they are. So over a round of the loop in which no turn raises, from the
  state \<open>ADD_ANOTHER_VEHICLE\<close> through \<open>VEHICLE_CHOICE\<close> to the next arrival in
  \<open>ADD_ANOTHER_VEHICLE\<close>, the number of vehicles grows by exactly one. Nothing is said of a
  turn that raises.
\<close>

theorem vehicle_created_on_choice:
  "(current_state c = ADD_ANOTHER_VEHICLE \<and> accepted sv c x = Some (PBool True)
    \<longrightarrow> (\<exists>r. snd (process_message sv c x) = Inr r)
        \<and> current_state (fst (process_message sv c x)) = VEHICLE_CHOICE
        \<and> vehicles (fst (process_message sv c x)) = vehicles c)
   \<and> ((\<exists>r. snd (process_message sv c x) = Inr r)
    \<longrightarrow> ((current_state c = VEHICLE_CHOICE
             \<and> current_state (fst (process_message sv c x)) \<noteq> VEHICLE_CHOICE)
           = (current_state c = VEHICLE_CHOICE \<and> accepted sv c x \<noteq> None))
        \<and> (if current_state c = VEHICLE_CHOICE
               \<and> current_state (fst (process_message sv c x)) \<noteq> VEHICLE_CHOICE
            then \<exists>w. vehicles (fst (process_message sv c x)) = vehicles c @ [w]
            else length (vehicles (fst (process_message sv c x))) = length (vehicles c)
               \<and> butlast (vehicles (fst (process_message sv c x))) = butlast (vehicles c)))
   \<and> (current_state c = ADD_ANOTHER_VEHICLE
        \<and> (\<exists>r. snd (process_message sv c x) = Inr r)
        \<and> current_state (fst (process_message sv c x)) = VEHICLE_CHOICE
        \<and> iteration ts (fst (process_message sv c x)) = Some d
    \<longrightarrow> current_state d = ADD_ANOTHER_VEHICLE
        \<and> length (vehicles d) = length (vehicles c) + 1)"
proof (intro conjI impI)
  assume a: "current_state c = ADD_ANOTHER_VEHICLE \<and> accepted sv c x = Some (PBool True)"
  then obtain m where v: "\<not> check_frustration x"
      "validate_and_extract sv ADD_ANOTHER_VEHICLE x c = Inr (True, PBool True, m)"
    by (auto simp add: accepted_def split: if_splits sum.splits)
  have s: "save_value ADD_ANOTHER_VEHICLE w d = (d, None)" for w d
    by (simp add: save_value_def)
  have n: "get_next_state ADD_ANOTHER_VEHICLE (PBool True) d = VEHICLE_CHOICE" for d
    by (simp add: get_next_state_def truthy_def)
  from a v show "\<exists>r. snd (process_message sv c x) = Inr r"
    and "current_state (fst (process_message sv c x)) = VEHICLE_CHOICE"
    and "vehicles (fst (process_message sv c x)) = vehicles c"
    by (simp_all add: turn_outcome s n reply_def current_state_add_message
          vehicles_add_message)
next
  assume "\<exists>r. snd (process_message sv c x) = Inr r"
  then obtain r where r: "snd (process_message sv c x) = Inr r"
    by blast
  from turn_count [OF r]
  show "(current_state c = VEHICLE_CHOICE
           \<and> current_state (fst (process_message sv c x)) \<noteq> VEHICLE_CHOICE)
         = (current_state c = VEHICLE_CHOICE \<and> accepted sv c x \<noteq> None)"
    and "if current_state c = VEHICLE_CHOICE
           \<and> current_state (fst (process_message sv c x)) \<noteq> VEHICLE_CHOICE
        then \<exists>w. vehicles (fst (process_message sv c x)) = vehicles c @ [w]
        else length (vehicles (fst (process_message sv c x))) = length (vehicles c)
           \<and> butlast (vehicles (fst (process_message sv c x))) = butlast (vehicles c)"
    by (rule conjunct1, rule conjunct2)
next
  assume a: "current_state c = ADD_ANOTHER_VEHICLE
        \<and> (\<exists>r. snd (process_message sv c x) = Inr r)
        \<and> current_state (fst (process_message sv c x)) = VEHICLE_CHOICE
        \<and> iteration ts (fst (process_message sv c x)) = Some d"
  then obtain r where r: "snd (process_message sv c x) = Inr r"
    by blast
  have 1: "length (vehicles (fst (process_message sv c x))) = length (vehicles c)"
    using turn_count [OF r] a by simp
  have 2: "current_state (fst (process_message sv c x))
      \<in> insert VEHICLE_CHOICE (set per_vehicle_states)"
    using a by simp
  from iteration_count [OF 2, of ts d] a 1
  show "current_state d = ADD_ANOTHER_VEHICLE"
    and "length (vehicles d) = length (vehicles c) + 1"
    by simp_all
qed

theorem vehicle_created_on_choice_witness:
  "current_state added_conversation = ADD_ANOTHER_VEHICLE
   \<and> accepted offline added_conversation ''yes'' = Some (PBool True)
   \<and> (\<exists>r. snd (process_message offline added_conversation ''yes'') = Inr r)
   \<and> current_state (fst (process_message offline added_conversation ''yes'')) = VEHICLE_CHOICE
   \<and> vehicles (fst (process_message offline added_conversation ''yes''))
       = vehicles added_conversation
   \<and> iteration business_script (fst (process_message offline added_conversation ''yes''))
       = Some (turns business_script (fst (process_message offline added_conversation ''yes'')))
   \<and> length (vehicles
         (turns business_script (fst (process_message offline added_conversation ''yes''))))
       = length (vehicles added_conversation) + 1"
proof -
  let ?c1 = "fst (process_message offline added_conversation ''yes'')"
  have a: "current_state added_conversation = ADD_ANOTHER_VEHICLE
      \<and> accepted offline added_conversation ''yes'' = Some (PBool True)"
    by code_simp
  have i: "iteration business_script ?c1 = Some (turns business_script ?c1)"
    by code_simp
  note t = vehicle_created_on_choice [of added_conversation offline "''yes''" business_script
      "turns business_script ?c1"]
  from t a have b: "(\<exists>r. snd (process_message offline added_conversation ''yes'') = Inr r)
      \<and> current_state ?c1 = VEHICLE_CHOICE \<and> vehicles ?c1 = vehicles added_conversation"
    by blast
  with t a i have "length (vehicles (turns business_script ?c1))
      = length (vehicles added_conversation) + 1"
    by blast
  with a b i show ?thesis
    by blast
qed

text \<open>
  C1 as stated fails: after an accepted "yes" in \<open>ADD_ANOTHER_VEHICLE\<close> the conversation
  has the one vehicle it had.
\<close>

theorem add_another_creates_no_vehicle:
  "current_state added_conversation = ADD_ANOTHER_VEHICLE
   \<and> \<not> check_frustration ''yes''
   \<and> validate_and_extract offline ADD_ANOTHER_VEHICLE ''yes'' added_conversation
       = Inr (True, PBool True, None)
   \<and> current_state (fst (process_message offline added_conversation ''yes'')) = VEHICLE_CHOICE
   \<and> length (vehicles added_conversation) = 1
   \<and> length (vehicles (fst (process_message offline added_conversation ''yes''))) = 1"
  by code_simp

text \<open>
  C3, as the code has it: in the state \<open>VEHICLE_CHOICE\<close>, take an input that is not a
  frustrated one, and the first standalone run of 17 VIN characters in it, stripped and in
  upper case. When the decode of that VIN is valid and the decoded model year is absent,
  empty or a text that \<open>int\<close> takes, the turn returns, appends one vehicle with that VIN,
  the year as an integer (or none), the make and the body class of the decode result, and
  sets the state to \<open>VEHICLE_USE\<close>. Nothing is said of another model year, on which \<open>int\<close>
  raises.
\<close>

theorem inline_vin_shortcut:
  assumes "current_state c = VEHICLE_CHOICE" and "\<not> check_frustration x"
    and "search_vin (str_upper (str_strip x)) = Some v"
    and "truthy (dict_get (decode_vin (nhtsa sv) v) ''valid'')"
    and "year_of (dict_get (decode_vin (nhtsa sv) v) ''year'') = Inr y"
  shows "(\<exists>response. snd (process_message sv c x) = Inr response)
    \<and> current_state (fst (process_message sv c x)) = VEHICLE_USE
    \<and> vehicles (fst (process_message sv c x)) =
        vehicles c @
          [(Vehicle (ident c))\<lparr>vin := PStr v, year := y,
             make_name := dict_get (decode_vin (nhtsa sv) v) ''make'',
             body_type := dict_get (decode_vin (nhtsa sv) v) ''body_class''\<rparr>]"
proof -
  let ?d = "dict_set (decode_vin (nhtsa sv) v) ''vin'' (PStr v)"
  let ?accepted = "PDict [(''choice'', PStr ''vin''), (''vin_data'', PDict ?d)]"
  let ?c0 = "add_message ''user'' x c"
  have val: "validate_and_extract sv VEHICLE_CHOICE x ?c0 = Inr (True, ?accepted, None)"
    using inline_vin_accepted [OF assms(3,4)] .
  have y: "year_of (dict_get ?d ''year'') = Inr y"
    using assms(5) by (simp add: dict_get_set)
  have nxt: "get_next_state VEHICLE_CHOICE ?accepted d = VEHICLE_USE" for d
    by (simp add: get_next_state_def has_vin_data_def has_key_def)
  show ?thesis
    using assms(1,2)
    by (simp add: process_message_def Let_def val save_inline_vin [OF y] nxt reply_def
          current_state_add_message vehicles_add_message ident_add_message dict_get_set)
qed

theorem inline_vin_shortcut_witness:
  "current_state choice_conversation = VEHICLE_CHOICE
   \<and> \<not> check_frustration ''my vin is 1hgcm82633a004352''
   \<and> search_vin (str_upper (str_strip ''my vin is 1hgcm82633a004352'')) = Some ''1HGCM82633A004352''
   \<and> truthy (dict_get (decode_vin (nhtsa honda_lookup) ''1HGCM82633A004352'') ''valid'')
   \<and> year_of (dict_get (decode_vin (nhtsa honda_lookup) ''1HGCM82633A004352'') ''year'')
       = Inr (PInt 2003)
   \<and> current_state (fst (process_message honda_lookup choice_conversation
         ''my vin is 1hgcm82633a004352'')) = VEHICLE_USE
   \<and> vehicles (fst (process_message honda_lookup choice_conversation
         ''my vin is 1hgcm82633a004352''))
       = [(Vehicle 1)\<lparr>vin := PStr ''1HGCM82633A004352'', year := PInt 2003,
            make_name := PStr ''HONDA'', body_type := PStr ''Coupe''\<rparr>]"
proof -
  have 1: "current_state choice_conversation = VEHICLE_CHOICE"
    by (simp add: choice_conversation_def)
  have 2: "\<not> check_frustration ''my vin is 1hgcm82633a004352''"
    by code_simp
  have 3: "search_vin (str_upper (str_strip ''my vin is 1hgcm82633a004352''))
      = Some ''1HGCM82633A004352''"
    by code_simp
  have 4: "truthy (dict_get (decode_vin (nhtsa honda_lookup) ''1HGCM82633A004352'') ''valid'')"
    by code_simp
  have 5: "year_of (dict_get (decode_vin (nhtsa honda_lookup) ''1HGCM82633A004352'') ''year'')
      = Inr (PInt 2003)"
    by code_simp
  have 6: "dict_get (decode_vin (nhtsa honda_lookup) ''1HGCM82633A004352'') ''make''
      = PStr ''HONDA''"
    by code_simp
  have 7: "dict_get (decode_vin (nhtsa honda_lookup) ''1HGCM82633A004352'') ''body_class''
      = PStr ''Coupe''"
    by code_simp
  have 8: "vehicles choice_conversation = []" "ident choice_conversation = 1"
    by (simp_all add: choice_conversation_def new_conversation_def)
  show ?thesis
    using 1 2 3 4 5 inline_vin_shortcut [OF 1 2 3 4 5]
    by (simp add: 6 7 8)
qed

text \<open>
  C3 as stated fails on an input that holds a frustration keyword beside the VIN: the turn
  answers with the quote, creates no vehicle and stays in \<open>VEHICLE_CHOICE\<close>.
\<close>

theorem inline_vin_frustrated:
  "current_state choice_conversation = VEHICLE_CHOICE
   \<and> search_vin (str_upper (str_strip ''this is stupid, the VIN is 1HGCM82633A004352''))
       = Some ''1HGCM82633A004352''
   \<and> truthy (dict_get (decode_vin (nhtsa honda_lookup) ''1HGCM82633A004352'') ''valid'')
   \<and> current_state (fst (process_message honda_lookup choice_conversation
         ''this is stupid, the VIN is 1HGCM82633A004352'')) = VEHICLE_CHOICE
   \<and> vehicles (fst (process_message honda_lookup choice_conversation
         ''this is stupid, the VIN is 1HGCM82633A004352'')) = []"
  by code_simp

end
